theory Spec2Isabelle
  imports Main "HOL-Library.Char_ord" "HOL-Library.List_Lexorder" "HOL-Library.Multiset"
begin

section \<open>The syntax tree the import manager reads\<close>

text \<open>
  The TypeScript parser is an external collaborator: \<open>ts.createSourceFile\<close> hands the
  import manager a tree. An import specifier \<open>A as B\<close> has \<open>propertyName = Some A\<close> and
  \<open>name = B\<close>, a specifier \<open>type A\<close> has a type-only flag of its own, and a clause
  \<open>D, { ... }\<close> has the default import \<open>D\<close> as its name. Of a specifier the manager reads
  \<open>name.text\<close> only.
\<close>

record ImportSpecifier =
  specifierIsTypeOnly :: bool
  propertyName :: "string option"
  name :: string

datatype NamedImportBindings =
    NamespaceImport string
  | NamedImports "ImportSpecifier list"

record ImportClause =
  isTypeOnly :: bool
  defaultName :: "string option"
  namedBindings :: "NamedImportBindings option"

record ImportDeclaration =
  importClause :: "ImportClause option"
  moduleSpecifier :: string
  getStart :: nat
  getEnd :: nat

datatype Node =
    ImportDeclarationNode ImportDeclaration
  | OtherNode nat nat

text \<open>\<open>ts.forEachChild(sourceFile, cb)\<close> visits the top-level statements in file order.\<close>

type_synonym SourceFile = "Node list"

text \<open>\<open>getNamedImports\<close>: the named bindings of a declaration, when it has a clause whose
  bindings are a \<open>{ ... }\<close> list.\<close>

definition getNamedImports :: "ImportDeclaration \<Rightarrow> ImportSpecifier list option" where
  "getNamedImports node =
     (case importClause node of
        None \<Rightarrow> None
      | Some clause \<Rightarrow>
          (case namedBindings clause of
             Some (NamedImports elements) \<Rightarrow> Some elements
           | _ \<Rightarrow> None))"

text \<open>\<open>elements.some(el => el.name.text === typeName)\<close>\<close>

definition someNamed :: "string \<Rightarrow> ImportSpecifier list \<Rightarrow> bool" where
  "someNamed typeName elements = (typeName \<in> set (map name elements))"

text \<open>The text of a binding as it stands between the braces, and the bindings that are a
  bare name: not renamed, and without a \<open>type\<close> modifier of their own.\<close>

definition bindingText :: "ImportSpecifier \<Rightarrow> string" where
  "bindingText el =
     (if specifierIsTypeOnly el then ''type '' else '''') @
     (case propertyName el of None \<Rightarrow> name el | Some original \<Rightarrow> original @ '' as '' @ name el)"

definition plainBinding :: "ImportSpecifier \<Rightarrow> bool" where
  "plainBinding el = (\<not> specifierIsTypeOnly el \<and> propertyName el = None)"

text \<open>A declaration that is a list of named bindings and nothing else: it has no default
  import beside the braces.\<close>

definition namedBindingsOnly :: "ImportDeclaration \<Rightarrow> bool" where
  "namedBindingsOnly node =
     (case importClause node of None \<Rightarrow> False | Some clause \<Rightarrow> defaultName clause = None)"

text \<open>\<open>node.importClause?.isTypeOnly || false\<close>\<close>

definition clauseIsTypeOnly :: "ImportDeclaration \<Rightarrow> bool" where
  "clauseIsTypeOnly node =
     (case importClause node of None \<Rightarrow> False | Some clause \<Rightarrow> isTypeOnly clause)"

section \<open>findExistingImportPath\<close>

text \<open>The callback of \<open>findExistingImportPath\<close>: one top-level node, with the result
  recorded so far (\<open>path\<close>, \<open>isTypeOnly\<close>).\<close>

definition findExistingImportPath_visit ::
    "string \<Rightarrow> string \<times> bool \<Rightarrow> Node \<Rightarrow> string \<times> bool" where
  "findExistingImportPath_visit typeName result node =
     (case node of
        OtherNode _ _ \<Rightarrow> result
      | ImportDeclarationNode decl \<Rightarrow>
          (case getNamedImports decl of
             None \<Rightarrow> result
           | Some elements \<Rightarrow>
               if \<not> someNamed typeName elements then result
               else (moduleSpecifier decl, clauseIsTypeOnly decl)))"

definition findExistingImportPath :: "SourceFile \<Rightarrow> string \<Rightarrow> string \<times> bool" where
  "findExistingImportPath refSourceFile typeName =
     foldl (findExistingImportPath_visit typeName) ('''', False) refSourceFile"

text \<open>The import declarations of a file, in file order, and the test "this declaration
  binds the name in its named bindings".\<close>

fun importDeclarations :: "SourceFile \<Rightarrow> ImportDeclaration list" where
  "importDeclarations [] = []"
| "importDeclarations (ImportDeclarationNode decl # rest) = decl # importDeclarations rest"
| "importDeclarations (OtherNode _ _ # rest) = importDeclarations rest"

definition bindsName :: "string \<Rightarrow> ImportDeclaration \<Rightarrow> bool" where
  "bindsName typeName decl =
     (case getNamedImports decl of None \<Rightarrow> False | Some elements \<Rightarrow> someNamed typeName elements)"

definition matchingImports :: "SourceFile \<Rightarrow> string \<Rightarrow> ImportDeclaration list" where
  "matchingImports sf typeName = filter (bindsName typeName) (importDeclarations sf)"

section \<open>Documents, edits and import changes\<close>

text \<open>
  The editor's document is an external collaborator too. The manager reads its file name,
  its text and \<open>positionAt\<close>, which turns an offset into a line and a character.
\<close>

record Position =
  line :: nat
  character :: nat

record Range =
  range_start :: Position
  range_end :: Position

record ImportEdit =
  edit_range :: Range
  newText :: string

record TextDocument =
  fileName :: string
  getText :: string
  positionAt :: "nat \<Rightarrow> Position"

record ImportChange =
  uri :: string
  oldImportPath :: string
  newImportPath :: string
  typeName :: string
  changeIsTypeOnly :: bool

record Changes =
  importChanges :: "ImportChange list"
  typeContent :: string

text \<open>\<open>Array.prototype.join\<close>\<close>

fun join :: "string \<Rightarrow> string list \<Rightarrow> string" where
  "join sep [] = ''''"
| "join sep [x] = x"
| "join sep (x # y # rest) = x @ sep @ join sep (y # rest)"

definition createEdit :: "nat \<Rightarrow> nat \<Rightarrow> string \<Rightarrow> TextDocument \<Rightarrow> ImportEdit" where
  "createEdit start stop text document =
     \<lparr>edit_range = \<lparr>range_start = positionAt document start,
                     range_end = positionAt document stop\<rparr>,
      newText = text\<rparr>"

section \<open>The import rewriter\<close>

text \<open>\<open>handleOldImportPath\<close> pushes at most one edit for a declaration at the old path: a
  deletion when the declaration binds the moved type alone, a rewritten declaration when
  it binds it among others. The remaining names keep the order they have in the file.\<close>

definition handleOldImportPath ::
    "ImportDeclaration \<Rightarrow> TextDocument \<Rightarrow> ImportChange \<Rightarrow> ImportEdit list \<Rightarrow> ImportEdit list" where
  \<open>handleOldImportPath node document change edits =
     (case importClause node of
        None \<Rightarrow> edits
      | Some clause \<Rightarrow>
          (case namedBindings clause of
             Some (NamedImports elements) \<Rightarrow>
               if length elements = 1 \<and> name (elements ! 0) = typeName change then
                 edits @ [createEdit (getStart node) (getEnd node) '''' document]
               else if someNamed (typeName change) elements then
                 (let remainingTypes =
                        join '', '' (map name (filter (\<lambda>el. name el \<noteq> typeName change) elements));
                      typeKeyword =
                        (if isTypeOnly clause \<or> changeIsTypeOnly change then ''type '' else '''');
                      newImport = ''import '' @ typeKeyword @ ''{ '' @ remainingTypes @
                        '' } from "'' @ moduleSpecifier node @ ''";''
                  in edits @ [createEdit (getStart node) (getEnd node) newImport document])
               else edits
           | _ \<Rightarrow> edits))\<close>

text \<open>\<open>handleNewImportPath\<close> merges the moved type into a declaration at the new path,
  unless the declaration binds it already. \<open>existingTypes.sort()\<close> is JavaScript's default
  sort: ascending in the order of the strings' code units, which is the lexicographic
  order of \<open>string\<close> here.\<close>

definition handleNewImportPath ::
    "ImportDeclaration \<Rightarrow> TextDocument \<Rightarrow> ImportChange \<Rightarrow> ImportEdit list \<Rightarrow> ImportEdit list" where
  \<open>handleNewImportPath node document change edits =
     (case importClause node of
        None \<Rightarrow> edits
      | Some clause \<Rightarrow>
          (case namedBindings clause of
             Some (NamedImports elements) \<Rightarrow>
               if someNamed (typeName change) elements then edits
               else
                 (let existingTypes = map name elements @ [typeName change];
                      sortedTypes = join '', '' (sort existingTypes);
                      shouldBeTypeOnly = (isTypeOnly clause \<or> changeIsTypeOnly change);
                      typeKeyword = (if shouldBeTypeOnly then ''type '' else '''');
                      newImport = ''import '' @ typeKeyword @ ''{ '' @ sortedTypes @
                        '' } from "'' @ moduleSpecifier node @ ''";''
                  in edits @ [createEdit (getStart node) (getEnd node) newImport document])
           | _ \<Rightarrow> edits))\<close>

definition addNewImport ::
    "nat \<Rightarrow> TextDocument \<Rightarrow> ImportChange \<Rightarrow> ImportEdit list \<Rightarrow> ImportEdit list" where
  \<open>addNewImport lastImportPos document change edits =
     (let importStatement =
            (if changeIsTypeOnly change
             then ''import type { '' @ typeName change @ '' } from "'' @ newImportPath change @ ''";'' @ [CHR 0x0A]
             else ''import { '' @ typeName change @ '' } from "'' @ newImportPath change @ ''";'' @ [CHR 0x0A]);
          pos = line (positionAt document lastImportPos) + 1
      in edits @ [\<lparr>edit_range = \<lparr>range_start = \<lparr>line = pos, character = 0\<rparr>,
                                  range_end = \<lparr>line = pos, character = 0\<rparr>\<rparr>,
                   newText = importStatement\<rparr>])\<close>

text \<open>The three variables the scan of \<open>calculateEditsForDocument\<close> updates.\<close>

record ScanState =
  editsToApply :: "ImportEdit list"
  hasExistingImport :: bool
  lastImportPos :: nat

definition calculateEdits_visit ::
    "TextDocument \<Rightarrow> ImportChange \<Rightarrow> ScanState \<Rightarrow> Node \<Rightarrow> ScanState" where
  "calculateEdits_visit document change st node =
     (case node of
        OtherNode _ _ \<Rightarrow> st
      | ImportDeclarationNode decl \<Rightarrow>
          (let st1 = st\<lparr>lastImportPos := getEnd decl\<rparr>;
               importPath = moduleSpecifier decl
           in if importPath = oldImportPath change then
                st1\<lparr>editsToApply := handleOldImportPath decl document change (editsToApply st1)\<rparr>
              else if importPath = newImportPath change then
                st1\<lparr>hasExistingImport := True,
                    editsToApply := handleNewImportPath decl document change (editsToApply st1)\<rparr>
              else st1))"

definition calculateEdits_scan :: "TextDocument \<Rightarrow> ImportChange \<Rightarrow> SourceFile \<Rightarrow> ScanState" where
  "calculateEdits_scan document change sourceFile =
     foldl (calculateEdits_visit document change)
       \<lparr>editsToApply = [], hasExistingImport = False, lastImportPos = 0\<rparr> sourceFile"

text \<open>\<open>calculateEditsForDocument\<close>. The parser is a parameter (\<open>createSourceFile\<close>, from file
  name and text to tree). The final sort is by descending start line and stable, as
  \<open>Array.prototype.sort\<close> with the comparator \<open>b.range.start.line - a.range.start.line\<close>.\<close>

definition calculateEditsForDocument ::
    "(string \<Rightarrow> string \<Rightarrow> SourceFile) \<Rightarrow> TextDocument \<Rightarrow> ImportChange \<Rightarrow> ImportEdit list" where
  "calculateEditsForDocument createSourceFile document change =
     (let sourceFile = createSourceFile (fileName document) (getText document);
          st = calculateEdits_scan document change sourceFile;
          edits = (if \<not> hasExistingImport st
                   then addNewImport (lastImportPos st) document change (editsToApply st)
                   else editsToApply st)
      in sort_key (\<lambda>e. - int (line (range_start (edit_range e)))) edits)"

text \<open>An import statement's text is type-only when it opens with \<open>import type\<close>.\<close>

definition isTypeOnlyImportText :: "string \<Rightarrow> bool" where
  "isTypeOnlyImportText text = (take 12 text = ''import type '')"

section \<open>Node's path functions (POSIX)\<close>

text \<open>
  The resolver calls \<open>path.resolve\<close>, \<open>path.relative\<close>, \<open>path.dirname\<close> and \<open>path.join\<close> of
  Node's standard library. They are modelled on POSIX paths, by segments; \<open>cwd\<close> is the
  process's working directory (an absolute path), which \<open>path.resolve\<close> falls back on.
\<close>

text \<open>\<open>String.prototype.split\<close> on one character: \<open>a/b\<close> gives \<open>[a, b]\<close>, \<open>/a\<close> gives \<open>[, a]\<close>.\<close>

fun splitOn :: "char \<Rightarrow> string \<Rightarrow> string list" where
  "splitOn sep [] = [[]]"
| "splitOn sep (ch # rest) =
     (if ch = sep then [] # splitOn sep rest
      else (case splitOn sep rest of
              [] \<Rightarrow> [[ch]]
            | seg # segs \<Rightarrow> (ch # seg) # segs))"

definition startsWith :: "string \<Rightarrow> string \<Rightarrow> bool" where
  "startsWith s p = (take (length p) s = p)"

definition endsWith :: "string \<Rightarrow> string \<Rightarrow> bool" where
  "endsWith s p = (length p \<le> length s \<and> drop (length s - length p) s = p)"

text \<open>\<open>normalizeString\<close>: empty and \<open>.\<close> segments vanish, \<open>..\<close> removes the segment before
  it; above the start, \<open>..\<close> is kept for a relative path and dropped for an absolute one.
  The segments kept so far are held in reverse.\<close>

fun normalizeSegments :: "bool \<Rightarrow> string list \<Rightarrow> string list \<Rightarrow> string list" where
  "normalizeSegments allowAboveRoot kept [] = rev kept"
| "normalizeSegments allowAboveRoot kept (seg # rest) =
     (if seg = '''' \<or> seg = ''.'' then normalizeSegments allowAboveRoot kept rest
      else if seg = ''..'' then
        (case kept of
           [] \<Rightarrow> normalizeSegments allowAboveRoot (if allowAboveRoot then [''..''] else []) rest
         | lastKept # below \<Rightarrow>
             if lastKept = ''..'' then normalizeSegments allowAboveRoot (''..'' # kept) rest
             else normalizeSegments allowAboveRoot below rest)
      else normalizeSegments allowAboveRoot (seg # kept) rest)"

text \<open>\<open>path.resolve\<close> reads its arguments from the right until one is absolute; the
  arguments are given here last first.\<close>

fun resolveFromRight :: "string \<Rightarrow> string list \<Rightarrow> string" where
  "resolveFromRight cwd [] = cwd"
| "resolveFromRight cwd (p # earlier) =
     (if p = '''' then resolveFromRight cwd earlier
      else if hd p = CHR ''/'' then p
      else resolveFromRight cwd earlier @ ''/'' @ p)"

definition resolvedSegments :: "string \<Rightarrow> string list \<Rightarrow> string list" where
  "resolvedSegments cwd args =
     normalizeSegments False [] (splitOn CHR ''/'' (resolveFromRight cwd (rev args)))"

definition path_resolve :: "string \<Rightarrow> string list \<Rightarrow> string" where
  "path_resolve cwd args = ''/'' @ join ''/'' (resolvedSegments cwd args)"

fun dropCommon :: "string list \<Rightarrow> string list \<Rightarrow> string list \<times> string list" where
  "dropCommon (x # xs) (y # ys) = (if x = y then dropCommon xs ys else (x # xs, y # ys))"
| "dropCommon xs ys = (xs, ys)"

definition path_relative :: "string \<Rightarrow> string \<Rightarrow> string \<Rightarrow> string" where
  "path_relative cwd fromPath toPath =
     (case dropCommon (resolvedSegments cwd [fromPath]) (resolvedSegments cwd [toPath]) of
        (up, down) \<Rightarrow> join ''/'' (replicate (length up) ''..'' @ down))"

text \<open>\<open>path.dirname\<close>: the text before the last slash that has a name after it.\<close>

fun dirnameEnd :: "string \<Rightarrow> nat \<Rightarrow> bool \<Rightarrow> nat option" where
  "dirnameEnd p 0 matchedSlash = None"
| "dirnameEnd p (Suc i) matchedSlash =
     (if p ! Suc i = CHR ''/'' then
        (if \<not> matchedSlash then Some (Suc i) else dirnameEnd p i matchedSlash)
      else dirnameEnd p i False)"

definition path_dirname :: "string \<Rightarrow> string" where
  "path_dirname p =
     (if p = '''' then ''.''
      else
        (let hasRoot = (hd p = CHR ''/'')
         in case dirnameEnd p (length p - 1) True of
              None \<Rightarrow> (if hasRoot then ''/'' else ''.'')
            | Some stop \<Rightarrow> if hasRoot \<and> stop = 1 then ''//'' else take stop p))"

definition path_normalize :: "string \<Rightarrow> string" where
  "path_normalize p =
     (if p = '''' then ''.''
      else
        (let isAbsolute = (hd p = CHR ''/'');
             trailingSeparator = (last p = CHR ''/'');
             body = join ''/'' (normalizeSegments (\<not> isAbsolute) [] (splitOn CHR ''/'' p))
         in if body = '''' then
              (if isAbsolute then ''/'' else if trailingSeparator then ''./'' else ''.'')
            else
              (let body' = (if trailingSeparator then body @ ''/'' else body)
               in if isAbsolute then ''/'' @ body' else body')))"

definition path_join :: "string list \<Rightarrow> string" where
  "path_join args =
     (case filter (\<lambda>a. a \<noteq> '''') args of
        [] \<Rightarrow> ''.''
      | parts \<Rightarrow> path_normalize (join ''/'' parts))"

section \<open>PathResolver\<close>

datatype error = TypeError | ReadError | CannotOpen string

text \<open>The three private fields; \<open>None\<close> is \<open>undefined\<close>. \<open>paths\<close> holds the entries of the
  configured object in the order \<open>Object.entries\<close> enumerates them.\<close>

record PathResolver =
  baseUrl :: "string option"
  paths :: "(string \<times> string list) list option"
  configDir :: "string option"

text \<open>What \<open>loadTsConfig\<close> reads from its surroundings: the \<open>typeRefactor.tsconfig\<close> setting,
  \<open>ts.findConfigFile\<close> from the workspace root, \<open>ts.sys.fileExists\<close>, and \<open>ts.readConfigFile\<close>,
  which throws, or returns an object with an \<open>error\<close> and a \<open>config\<close> field.\<close>

record CompilerOptions =
  co_baseUrl :: "string option"
  co_paths :: "(string \<times> string list) list option"

record RawConfig =
  compilerOptions :: "CompilerOptions option"

datatype ReadResult =
    ReadThrows
  | ReadReturns bool "RawConfig option"

record ConfigHost =
  tsconfigSetting :: "string option"
  findConfigFile :: "string \<Rightarrow> string option"
  fileExists :: "string \<Rightarrow> bool"
  readConfigFile :: "string \<Rightarrow> ReadResult"

definition emptyResolver :: PathResolver where
  "emptyResolver = \<lparr>baseUrl = None, paths = None, configDir = None\<rparr>"

text \<open>JavaScript truthiness of \<open>string | undefined\<close>.\<close>

definition truthy :: "string option \<Rightarrow> bool" where
  "truthy v = (case v of None \<Rightarrow> False | Some s \<Rightarrow> s \<noteq> '''')"

text \<open>The body of the \<open>try\<close> block of \<open>loadTsConfig\<close>: the resolver it leaves behind, with the
  exception when one is thrown. \<open>configDir\<close> is assigned before the config is read into.\<close>

definition loadTsConfig_try ::
    "ConfigHost \<Rightarrow> string \<Rightarrow> PathResolver \<Rightarrow> error option \<times> PathResolver" where
  "loadTsConfig_try host configPath r =
     (case readConfigFile host configPath of
        ReadThrows \<Rightarrow> (Some ReadError, r)
      | ReadReturns hasError config \<Rightarrow>
          if hasError then (None, r)
          else
            (let r1 = r\<lparr>configDir := Some (path_dirname configPath)\<rparr>
             in case config of
                  None \<Rightarrow> (Some TypeError, r1)
                | Some cfg \<Rightarrow>
                    (let chosenBaseUrl =
                           (case compilerOptions cfg of
                              None \<Rightarrow> ''.''
                            | Some opts \<Rightarrow> if truthy (co_baseUrl opts) then the (co_baseUrl opts) else ''.'');
                         chosenPaths =
                           (case compilerOptions cfg of None \<Rightarrow> None | Some opts \<Rightarrow> co_paths opts)
                     in (None, r1\<lparr>baseUrl := Some chosenBaseUrl, paths := chosenPaths\<rparr>))))"

text \<open>The path of the configuration file: the setting joined to the workspace root, or
  else what \<open>ts.findConfigFile\<close> finds.\<close>

definition locateConfig :: "ConfigHost \<Rightarrow> string \<Rightarrow> string option" where
  "locateConfig host workspaceRoot =
     (if truthy (tsconfigSetting host)
      then Some (path_join [workspaceRoot, the (tsconfigSetting host)])
      else findConfigFile host workspaceRoot)"

definition loadTsConfig :: "ConfigHost \<Rightarrow> string \<Rightarrow> PathResolver \<Rightarrow> PathResolver" where
  "loadTsConfig host workspaceRoot r =
     (if workspaceRoot = [] then r
      else
        (let configPath = locateConfig host workspaceRoot
         in if \<not> truthy configPath \<or> \<not> fileExists host (the configPath) then r
            else snd (loadTsConfig_try host (the configPath) r)))"

text \<open>The constructor: it returns the resolver, or the exception that escapes it.\<close>

definition newPathResolver :: "ConfigHost \<Rightarrow> string \<Rightarrow> error + PathResolver" where
  "newPathResolver host workspaceRoot = Inr (loadTsConfig host workspaceRoot emptyResolver)"

text \<open>\<open>s.replace(/\*$/, '')\<close> and \<open>s.replace(/\.(ts|tsx|vue)$/, '')\<close>\<close>

definition stripTrailingStar :: "string \<Rightarrow> string" where
  "stripTrailingStar s = (if endsWith s ''*'' then take (length s - 1) s else s)"

definition stripExtension :: "string \<Rightarrow> string" where
  "stripExtension s =
     (if endsWith s ''.tsx'' then take (length s - 4) s
      else if endsWith s ''.vue'' then take (length s - 4) s
      else if endsWith s ''.ts'' then take (length s - 3) s
      else s)"

text \<open>The loop of \<open>tryMatchPathAlias\<close> over the entries of \<open>paths\<close>. \<open>aliasTargets[0]\<close> of
  an empty array is \<open>undefined\<close>, and \<open>.replace\<close> on it throws a TypeError.\<close>

fun tryMatchPathAlias_loop ::
    "string \<Rightarrow> string \<Rightarrow> string \<Rightarrow> (string \<times> string list) list \<Rightarrow> error + string option" where
  "tryMatchPathAlias_loop cwd absoluteBaseUrl absoluteFilePath [] = Inr None"
| "tryMatchPathAlias_loop cwd absoluteBaseUrl absoluteFilePath ((aliasPattern, aliasTargets) # rest) =
     (case aliasTargets of
        [] \<Rightarrow> Inl TypeError
      | firstTarget # _ \<Rightarrow>
          (let aliasPrefix = stripTrailingStar aliasPattern;
               aliasTargetPath = stripTrailingStar firstTarget;
               absoluteAliasPath = path_resolve cwd [absoluteBaseUrl, aliasTargetPath]
           in if startsWith absoluteFilePath absoluteAliasPath then
                Inr (Some (stripExtension
                  (aliasPrefix @ path_relative cwd absoluteAliasPath absoluteFilePath)))
              else tryMatchPathAlias_loop cwd absoluteBaseUrl absoluteFilePath rest))"

definition tryMatchPathAlias :: "string \<Rightarrow> PathResolver \<Rightarrow> string \<Rightarrow> error + string option" where
  "tryMatchPathAlias cwd r absoluteFilePath =
     (if paths r = None \<or> \<not> truthy (baseUrl r) \<or> \<not> truthy (configDir r) then Inr None
      else
        (let absoluteBaseUrl = path_resolve cwd [the (configDir r), the (baseUrl r)]
         in tryMatchPathAlias_loop cwd absoluteBaseUrl absoluteFilePath (the (paths r))))"

text \<open>The relative fallback of \<open>resolveImportPath\<close>.\<close>

definition relativeSpecifier :: "string \<Rightarrow> string \<Rightarrow> string \<Rightarrow> string" where
  "relativeSpecifier cwd fromPath toPath =
     (let relativePath = path_relative cwd (path_dirname fromPath) toPath
      in if \<not> startsWith relativePath ''.'' then ''./'' @ relativePath else relativePath)"

definition resolveImportPath :: "string \<Rightarrow> PathResolver \<Rightarrow> string \<Rightarrow> string \<Rightarrow> error + string" where
  "resolveImportPath cwd r fromPath toPath =
     (case tryMatchPathAlias cwd r toPath of
        Inl e \<Rightarrow> Inl e
      | Inr aliasPath \<Rightarrow>
          if truthy aliasPath then Inr (the aliasPath)
          else Inr (relativeSpecifier cwd fromPath toPath))"

section \<open>The workspace and calculateChanges\<close>

text \<open>
  The editor services the import manager calls: the parser, the position function of a
  document with a given text, what \<open>workspace.applyEdit\<close> makes of a text under a list of
  replacements, and the working directory. The workspace maps a file's path to its text.
\<close>

record Editor =
  createSourceFile :: "string \<Rightarrow> string \<Rightarrow> SourceFile"
  positionOf :: "string \<Rightarrow> nat \<Rightarrow> Position"
  applyTextEdits :: "string \<Rightarrow> ImportEdit list \<Rightarrow> string"
  editor_cwd :: string

type_synonym Workspace = "string \<rightharpoonup> string"

record Location =
  loc_uri :: string
  loc_range :: Range

text \<open>\<open>typeInfo\<close>: the name, and of the node \<open>getText()\<close>, \<open>getStart()\<close> and \<open>getEnd()\<close>.\<close>

record TypeInfo =
  ti_name :: string
  ti_text :: string
  ti_start :: nat
  ti_end :: nat

text \<open>\<open>vscode.workspace.openTextDocument\<close> rejects when the file cannot be opened. It reads
  the workspace and returns it as it was.\<close>

definition openTextDocument ::
    "Editor \<Rightarrow> string \<Rightarrow> Workspace \<Rightarrow> (error + TextDocument) \<times> Workspace" where
  "openTextDocument editor path ws =
     (case ws path of
        None \<Rightarrow> (Inl (CannotOpen path), ws)
      | Some text \<Rightarrow>
          (Inr \<lparr>fileName = path, getText = text, positionAt = positionOf editor text\<rparr>, ws))"

text \<open>\<open>workspace.applyEdit\<close> with the replacements of one file: the only operation here that
  writes the workspace.\<close>

definition applyEdits :: "Editor \<Rightarrow> string \<Rightarrow> ImportEdit list \<Rightarrow> Workspace \<Rightarrow> Workspace" where
  "applyEdits editor path edits ws =
     (case ws path of
        None \<Rightarrow> ws
      | Some text \<Rightarrow> ws(path \<mapsto> applyTextEdits editor text edits))"

text \<open>The loop of \<open>calculateChanges\<close> over the references, with the changes pushed so far.\<close>

fun calculateChanges_loop ::
    "Editor \<Rightarrow> PathResolver \<Rightarrow> TypeInfo \<Rightarrow> string \<Rightarrow> Location list \<Rightarrow> ImportChange list \<Rightarrow>
     Workspace \<Rightarrow> (error + ImportChange list) \<times> Workspace" where
  "calculateChanges_loop editor resolver typeInfo destPath [] pushed ws = (Inr pushed, ws)"
| "calculateChanges_loop editor resolver typeInfo destPath (ref # rest) pushed ws =
     (case openTextDocument editor (loc_uri ref) ws of
        (Inl e, ws1) \<Rightarrow> (Inl e, ws1)
      | (Inr refDocument, ws1) \<Rightarrow>
          (let refSourceFile = createSourceFile editor (loc_uri ref) (getText refDocument);
               found = findExistingImportPath refSourceFile (ti_name typeInfo)
           in if fst found = '''' then
                calculateChanges_loop editor resolver typeInfo destPath rest pushed ws1
              else
                (case tryMatchPathAlias (editor_cwd editor) resolver destPath of
                   Inl e \<Rightarrow> (Inl e, ws1)
                 | Inr aliasPath \<Rightarrow>
                     (case (if truthy aliasPath then Inr (the aliasPath)
                            else resolveImportPath (editor_cwd editor) resolver (loc_uri ref) destPath) of
                        Inl e \<Rightarrow> (Inl e, ws1)
                      | Inr newPath \<Rightarrow>
                          calculateChanges_loop editor resolver typeInfo destPath rest
                            (pushed @ [\<lparr>uri = loc_uri ref, oldImportPath = fst found,
                                        newImportPath = newPath, typeName = ti_name typeInfo,
                                        changeIsTypeOnly = snd found\<rparr>]) ws1))))"

definition calculateChanges ::
    "Editor \<Rightarrow> PathResolver \<Rightarrow> TypeInfo \<Rightarrow> string \<Rightarrow> string \<Rightarrow> Location list \<Rightarrow>
     Workspace \<Rightarrow> (error + Changes) \<times> Workspace" where
  "calculateChanges editor resolver typeInfo sourcePath destPath references ws =
     (case calculateChanges_loop editor resolver typeInfo destPath references [] ws of
        (Inl e, ws1) \<Rightarrow> (Inl e, ws1)
      | (Inr pushed, ws1) \<Rightarrow>
          (Inr \<lparr>importChanges = pushed, typeContent = ti_text typeInfo\<rparr>, ws1))"

text \<open>\<open>updateImports\<close>: for each change, open the file, compute its edits, apply them.\<close>

fun updateImports_loop ::
    "Editor \<Rightarrow> ImportChange list \<Rightarrow> Workspace \<Rightarrow> (error + unit) \<times> Workspace" where
  "updateImports_loop editor [] ws = (Inr (), ws)"
| "updateImports_loop editor (change # rest) ws =
     (case openTextDocument editor (uri change) ws of
        (Inl e, ws1) \<Rightarrow> (Inl e, ws1)
      | (Inr document, ws1) \<Rightarrow>
          (let edits = calculateEditsForDocument (createSourceFile editor) document change
           in updateImports_loop editor rest (applyEdits editor (uri change) edits ws1)))"

definition updateImports :: "Editor \<Rightarrow> Changes \<Rightarrow> Workspace \<Rightarrow> (error + unit) \<times> Workspace" where
  "updateImports editor changes ws = updateImports_loop editor (importChanges changes) ws"

section \<open>FileManager and moveType\<close>

text \<open>\<open>String.prototype.trimStart\<close> and \<open>trimEnd\<close>, on the white space of ASCII (JavaScript
  also trims the Unicode space separators, which are several bytes each here).\<close>

definition isWhiteSpace :: "char \<Rightarrow> bool" where
  "isWhiteSpace ch = (ch \<in> set [CHR '' '', CHR 0x09, CHR 0x0A, CHR 0x0B, CHR 0x0C, CHR 0x0D])"

definition trimStart :: "string \<Rightarrow> string" where
  "trimStart s = dropWhile isWhiteSpace s"

definition trimEnd :: "string \<Rightarrow> string" where
  "trimEnd s = rev (dropWhile isWhiteSpace (rev s))"

text \<open>\<open>createDestinationFile\<close>: an existing destination is replaced as a whole by its
  text, trimmed at the end, two line feeds, and the content trimmed at the start; when
  opening it throws, the file is created with the content.\<close>

definition createDestinationFile :: "Editor \<Rightarrow> string \<Rightarrow> string \<Rightarrow> Workspace \<Rightarrow> Workspace" where
  "createDestinationFile editor destPath content ws =
     (case openTextDocument editor destPath ws of
        (Inr existingDocument, ws1) \<Rightarrow>
          (let existingContent = getText existingDocument;
               newContent = trimEnd existingContent @ [CHR 0x0A, CHR 0x0A] @ trimStart content;
               fullRange = \<lparr>range_start = \<lparr>line = 0, character = 0\<rparr>,
                            range_end = positionAt existingDocument (length existingContent)\<rparr>
           in applyEdits editor destPath [\<lparr>edit_range = fullRange, newText = newContent\<rparr>] ws1)
      | (Inl _, ws1) \<Rightarrow> ws1(destPath \<mapsto> content))"

text \<open>The first edit of \<open>moveType\<close>: the declaration's range is deleted from the source
  document.\<close>

definition removeDeclaration :: "Editor \<Rightarrow> TypeInfo \<Rightarrow> string \<Rightarrow> Workspace \<Rightarrow> Workspace" where
  "removeDeclaration editor typeInfo sourcePath ws =
     (case ws sourcePath of
        None \<Rightarrow> ws
      | Some sourceText \<Rightarrow>
          applyEdits editor sourcePath
            [\<lparr>edit_range = \<lparr>range_start = positionOf editor sourceText (ti_start typeInfo),
                             range_end = positionOf editor sourceText (ti_end typeInfo)\<rparr>,
              newText = ''''\<rparr>] ws)"

text \<open>\<open>moveType\<close> from the point where the type, the destination and the references are
  known (\<open>None\<close>: the reference provider returned nothing, and the command stops). The
  result is the exception its \<open>catch\<close> reports, if any. The dependency analysis before
  the reference search (its result is not used) and the saving of the documents at the
  end, which does not change their text, are left out.\<close>

definition moveType ::
    "Editor \<Rightarrow> PathResolver \<Rightarrow> TypeInfo \<Rightarrow> string \<Rightarrow> string \<Rightarrow> Location list option \<Rightarrow>
     Workspace \<Rightarrow> (error + unit) \<times> Workspace" where
  "moveType editor resolver typeInfo sourcePath destPath references ws =
     (case references of
        None \<Rightarrow> (Inr (), ws)
      | Some refs \<Rightarrow>
          (let ws1 = removeDeclaration editor typeInfo sourcePath ws
           in case calculateChanges editor resolver typeInfo sourcePath destPath refs ws1 of
                (Inl e, ws2) \<Rightarrow> (Inl e, ws2)
              | (Inr changes, ws2) \<Rightarrow>
                  updateImports editor changes
                    (createDestinationFile editor destPath (ti_text typeInfo) ws2)))"

text \<open>The change \<open>calculateChanges\<close> pushes for one reference, given what alias matching
  returned for the destination: none when the referencing file has no import that binds
  the type.\<close>

definition changeFor ::
    "Editor \<Rightarrow> TypeInfo \<Rightarrow> string \<Rightarrow> string option \<Rightarrow> Workspace \<Rightarrow> Location \<Rightarrow> ImportChange list" where
  "changeFor editor typeInfo destPath aliasPath ws ref =
     (let found = findExistingImportPath
            (createSourceFile editor (loc_uri ref) (the (ws (loc_uri ref)))) (ti_name typeInfo)
      in if fst found = '''' then []
         else [\<lparr>uri = loc_uri ref, oldImportPath = fst found,
                 newImportPath =
                   (if truthy aliasPath then the aliasPath
                    else relativeSpecifier (editor_cwd editor) (loc_uri ref) destPath),
                 typeName = ti_name typeInfo, changeIsTypeOnly = snd found\<rparr>])"

section \<open>Concrete documents and trees\<close>

text \<open>
  A document whose \<open>positionAt\<close> counts line feeds, a builder for declarations with
  named bindings, and the files the examples below run on. The offsets of each tree are
  those of its text.
\<close>

definition lineColumnAt :: "string \<Rightarrow> nat \<Rightarrow> Position" where
  "lineColumnAt text offset =
     (let prefix_text = take offset text
      in \<lparr>line = length (filter (\<lambda>ch. ch = CHR 0x0A) prefix_text),
          character = length (takeWhile (\<lambda>ch. ch \<noteq> CHR 0x0A) (rev prefix_text))\<rparr>)"

definition mkDocument :: "string \<Rightarrow> string \<Rightarrow> TextDocument" where
  "mkDocument file text = \<lparr>fileName = file, getText = text, positionAt = lineColumnAt text\<rparr>"

definition namedImportDecl :: "bool \<Rightarrow> string list \<Rightarrow> string \<Rightarrow> nat \<Rightarrow> nat \<Rightarrow> ImportDeclaration" where
  "namedImportDecl typeOnly names specifier start stop =
     \<lparr>importClause = Some \<lparr>isTypeOnly = typeOnly, defaultName = None,
        namedBindings = Some (NamedImports (map (\<lambda>n. \<lparr>specifierIsTypeOnly = False, propertyName = None, name = n\<rparr>) names))\<rparr>,
      moduleSpecifier = specifier, getStart = start, getEnd = stop\<rparr>"

text \<open>An edit applier for the examples: each range is turned into offsets of the text as
  it was, and the replacements are made from the last one to the first.\<close>

fun lineStartOffset :: "string \<Rightarrow> nat \<Rightarrow> nat" where
  "lineStartOffset text 0 = 0"
| "lineStartOffset [] (Suc l) = 0"
| "lineStartOffset (ch # rest) (Suc l) =
     Suc (if ch = CHR 0x0A then lineStartOffset rest l else lineStartOffset rest (Suc l))"

definition offsetAt :: "string \<Rightarrow> Position \<Rightarrow> nat" where
  "offsetAt text pos =
     (let lineStart = lineStartOffset text (line pos);
          lineLength = length (takeWhile (\<lambda>ch. ch \<noteq> CHR 0x0A) (drop lineStart text))
      in lineStart + min (character pos) lineLength)"

definition spliceEdits :: "string \<Rightarrow> ImportEdit list \<Rightarrow> string" where
  "spliceEdits text edits =
     foldl (\<lambda>current (first, stop, replacement). take first current @ replacement @ drop stop current)
       text
       (sort_key (\<lambda>(first, stop, replacement). - int first)
          (map (\<lambda>e. (offsetAt text (range_start (edit_range e)),
                      offsetAt text (range_end (edit_range e)), newText e)) edits))"

definition aliasTypes_text :: string where
  \<open>aliasTypes_text = ''import { X } from "@/types";'' @ [CHR 0x0A] @
     ''import { Y } from "@/types";'' @ [CHR 0x0A]\<close>

definition aliasTypes_tree :: SourceFile where
  "aliasTypes_tree =
     [ImportDeclarationNode (namedImportDecl False [''X''] ''@/types'' 0 28),
      ImportDeclarationNode (namedImportDecl False [''Y''] ''@/types'' 29 57)]"

definition aliasTypes_change :: ImportChange where
  "aliasTypes_change = \<lparr>uri = ''/root/src/b.ts'', oldImportPath = ''@/types'',
     newImportPath = ''@/types'', typeName = ''Y'', changeIsTypeOnly = False\<rparr>"

definition mergeEx_text :: string where
  \<open>mergeEx_text = ''import { X } from "p";''\<close>

definition mergeEx_decl :: ImportDeclaration where
  "mergeEx_decl = namedImportDecl False [''X''] ''p'' 0 22"

definition mergeEx_change :: ImportChange where
  "mergeEx_change = \<lparr>uri = ''/proj/b.ts'', oldImportPath = ''./old'',
     newImportPath = ''p'', typeName = ''Y'', changeIsTypeOnly = False\<rparr>"

definition typeOnlyEx_text :: string where
  \<open>typeOnlyEx_text = ''import type { X } from "p";''\<close>

definition typeOnlyEx_decl :: ImportDeclaration where
  "typeOnlyEx_decl = namedImportDecl True [''X''] ''p'' 0 27"

definition oldEx_text :: string where
  \<open>oldEx_text = ''import { Zed, Foo, Alpha } from "./old";''\<close>

definition oldEx_decl :: ImportDeclaration where
  "oldEx_decl = namedImportDecl False [''Zed'', ''Foo'', ''Alpha''] ''./old'' 0 40"

definition oldEx_change :: "bool \<Rightarrow> ImportChange" where
  "oldEx_change typeOnly = \<lparr>uri = ''/proj/b.ts'', oldImportPath = ''./old'',
     newImportPath = ''./new'', typeName = ''Foo'', changeIsTypeOnly = typeOnly\<rparr>"

definition splitEx_text :: string where
  \<open>splitEx_text = ''import type { Foo } from "./c";'' @ [CHR 0x0A] @
     ''import { helper } from "./c";'' @ [CHR 0x0A]\<close>

definition splitEx_tree :: SourceFile where
  "splitEx_tree =
     [ImportDeclarationNode (namedImportDecl True [''Foo''] ''./c'' 0 31),
      ImportDeclarationNode (namedImportDecl False [''helper''] ''./c'' 32 61)]"

definition movedEx_text :: string where
  \<open>movedEx_text = ''import { Foo } from "./c";'' @ [CHR 0x0A]\<close>

definition movedEx_decl :: ImportDeclaration where
  "movedEx_decl = namedImportDecl False [''Foo''] ''./c'' 0 26"

definition movedEx_change :: "bool \<Rightarrow> ImportChange" where
  "movedEx_change typeOnly = \<lparr>uri = ''/proj/b.ts'', oldImportPath = ''./a'',
     newImportPath = ''./c'', typeName = ''Foo'', changeIsTypeOnly = typeOnly\<rparr>"

definition noImportsEx_text :: string where
  "noImportsEx_text = ''const x: Foo = {'' @ [CHR 0x0A] @ ''  id: 1'' @ [CHR 0x0A] @
     ''};'' @ [CHR 0x0A]"

definition noImportsEx_tree :: SourceFile where
  "noImportsEx_tree = [OtherNode 0 27]"

text \<open>Whether loading the configuration fails: no workspace root, no configuration file,
  a read that throws or reports an error, or a configuration without \<open>compilerOptions.paths\<close>.
  (A missing \<open>baseUrl\<close> alone is no failure: it defaults to \<open>.\<close>.)\<close>

definition loadFails :: "ConfigHost \<Rightarrow> string \<Rightarrow> bool" where
  "loadFails host workspaceRoot =
     (workspaceRoot = '''' \<or>
      \<not> truthy (locateConfig host workspaceRoot) \<or>
      \<not> fileExists host (the (locateConfig host workspaceRoot)) \<or>
      (case readConfigFile host (the (locateConfig host workspaceRoot)) of
         ReadThrows \<Rightarrow> True
       | ReadReturns hasError config \<Rightarrow>
           hasError \<or>
           (case config of
              None \<Rightarrow> True
            | Some cfg \<Rightarrow>
                (case compilerOptions cfg of None \<Rightarrow> True | Some opts \<Rightarrow> co_paths opts = None))))"

text \<open>The directory an alias target stands for: the target without its trailing star,
  resolved against the resolved \<open>baseUrl\<close>.\<close>

definition aliasDirectory :: "string \<Rightarrow> PathResolver \<Rightarrow> string \<Rightarrow> string" where
  "aliasDirectory cwd r target =
     path_resolve cwd
       [path_resolve cwd [the (configDir r), the (baseUrl r)], stripTrailingStar target]"

text \<open>A project at \<open>/root\<close> whose \<open>tsconfig.json\<close> has \<open>baseUrl: "./src"\<close> and
  \<open>paths: { "@/*": ["*"] }\<close>, and the resolver it loads.\<close>

definition rootAlias_host :: ConfigHost where
  "rootAlias_host =
     \<lparr>tsconfigSetting = Some ''./tsconfig.json'',
      findConfigFile = (\<lambda>_. None),
      fileExists = (\<lambda>p. p = ''/root/tsconfig.json''),
      readConfigFile = (\<lambda>_. ReadReturns False (Some \<lparr>compilerOptions =
         Some \<lparr>co_baseUrl = Some ''./src'', co_paths = Some [(''@/*'', [''*''])]\<rparr>\<rparr>))\<rparr>"

definition rootAlias_resolver :: PathResolver where
  "rootAlias_resolver =
     \<lparr>baseUrl = Some ''./src'', paths = Some [(''@/*'', [''*''])], configDir = Some ''/root''\<rparr>"

text \<open>The repository's test configuration: three patterns, the first of which covers all
  of \<open>src\<close>.\<close>

definition mock_resolver :: PathResolver where
  "mock_resolver =
     \<lparr>baseUrl = Some ''./src'',
      paths = Some [(''@/*'', [''*'']), (''@utils/*'', [''utils/*'']),
                    (''@components/*'', [''components/*''])],
      configDir = Some ''/mock/workspace''\<rparr>"

text \<open>A host with no configuration file at all.\<close>

definition noConfig_host :: ConfigHost where
  "noConfig_host =
     \<lparr>tsconfigSetting = None, findConfigFile = (\<lambda>_. None), fileExists = (\<lambda>_. False),
      readConfigFile = (\<lambda>_. ReadThrows)\<rparr>"

text \<open>The scenario of the move of \<open>Foo\<close> from \<open>a.ts\<close> to a new \<open>c.ts\<close>, with \<open>b.ts\<close>
  importing it and no alias configured, at the moment \<open>moveType\<close> calls \<open>calculateChanges\<close>:
  the declaration \<open>export interface Foo { id: string }\<close> has been deleted from \<open>a.ts\<close>
  already, and the references are those found before the deletion.\<close>

definition scenario_a_text :: string where
  "scenario_a_text = [CHR 0x0A]"

definition scenario_b_text :: string where
  \<open>scenario_b_text = ''import { Foo } from "./a";'' @ [CHR 0x0A] @
     ''const f: Foo = { id: "1" };'' @ [CHR 0x0A]\<close>

definition scenario_b_tree :: SourceFile where
  "scenario_b_tree =
     [ImportDeclarationNode (namedImportDecl False [''Foo''] ''./a'' 0 26), OtherNode 27 54]"

text \<open>\<open>b.ts\<close> after its import has been rewritten, and the workspace before and after the
  whole move.\<close>

definition scenario_b_moved_text :: string where
  \<open>scenario_b_moved_text = [CHR 0x0A] @ ''import { Foo } from "./c.ts";'' @ [CHR 0x0A] @
     ''const f: Foo = { id: "1" };'' @ [CHR 0x0A]\<close>

definition scenario_b_moved_tree :: SourceFile where
  "scenario_b_moved_tree =
     [ImportDeclarationNode (namedImportDecl False [''Foo''] ''./c.ts'' 1 30), OtherNode 31 58]"

definition scenario_initial :: Workspace where
  "scenario_initial =
     [''/proj/a.ts'' \<mapsto> ''export interface Foo { id: string }'' @ [CHR 0x0A],
      ''/proj/b.ts'' \<mapsto> scenario_b_text]"

definition scenario_final :: Workspace where
  "scenario_final =
     [''/proj/a.ts'' \<mapsto> [CHR 0x0A],
      ''/proj/b.ts'' \<mapsto> scenario_b_moved_text,
      ''/proj/c.ts'' \<mapsto> ''export interface Foo { id: string }'']"

text \<open>A reference into a file that is not in the workspace.\<close>

definition missing_reference :: Location where
  "missing_reference =
     \<lparr>loc_uri = ''/proj/gone.ts'',
      loc_range = \<lparr>range_start = \<lparr>line = 3, character = 9\<rparr>,
                   range_end = \<lparr>line = 3, character = 12\<rparr>\<rparr>\<rparr>"

definition scenario_workspace :: Workspace where
  "scenario_workspace = [''/proj/a.ts'' \<mapsto> scenario_a_text, ''/proj/b.ts'' \<mapsto> scenario_b_text]"

definition scenario_editor :: Editor where
  "scenario_editor =
     \<lparr>createSourceFile = (\<lambda>path text. if text = scenario_b_text then scenario_b_tree
                                else if text = scenario_b_moved_text then scenario_b_moved_tree
                                else []),
      positionOf = lineColumnAt,
      applyTextEdits = spliceEdits,
      editor_cwd = ''/proj''\<rparr>"

definition scenario_typeInfo :: TypeInfo where
  "scenario_typeInfo = \<lparr>ti_name = ''Foo'', ti_text = ''export interface Foo { id: string }'',
       ti_start = 0, ti_end = 35\<rparr>"

definition scenario_references :: "Location list" where
  "scenario_references =
     [\<lparr>loc_uri = ''/proj/a.ts'',
       loc_range = \<lparr>range_start = \<lparr>line = 0, character = 17\<rparr>,
                    range_end = \<lparr>line = 0, character = 20\<rparr>\<rparr>\<rparr>,
      \<lparr>loc_uri = ''/proj/b.ts'',
       loc_range = \<lparr>range_start = \<lparr>line = 0, character = 9\<rparr>,
                    range_end = \<lparr>line = 0, character = 12\<rparr>\<rparr>\<rparr>,
      \<lparr>loc_uri = ''/proj/b.ts'',
       loc_range = \<lparr>range_start = \<lparr>line = 1, character = 9\<rparr>,
                    range_end = \<lparr>line = 1, character = 12\<rparr>\<rparr>\<rparr>]"

definition scenario_change :: ImportChange where
  "scenario_change = \<lparr>uri = ''/proj/b.ts'', oldImportPath = ''./a'',
     newImportPath = ''./c.ts'', typeName = ''Foo'', changeIsTypeOnly = False\<rparr>"

text \<open>Two imports that bind \<open>Foo\<close>, with a statement between them.\<close>

definition twoImports_tree :: SourceFile where
  "twoImports_tree =
     [ImportDeclarationNode (namedImportDecl False [''Foo''] ''./first'' 0 30),
      OtherNode 31 45,
      ImportDeclarationNode (namedImportDecl True [''Bar'', ''Foo''] ''./second'' 46 87),
      ImportDeclarationNode (namedImportDecl False [''Baz''] ''./third'' 88 118)]"

text \<open>\<open>import D, { A as B } from "p";\<close>: a default import beside a renamed binding.\<close>

definition defaultAlias_text :: string where
  \<open>defaultAlias_text = ''import D, { A as B } from "p";''\<close>

definition defaultAlias_decl :: ImportDeclaration where
  "defaultAlias_decl =
     \<lparr>importClause = Some \<lparr>isTypeOnly = False, defaultName = Some ''D'',
        namedBindings = Some (NamedImports
          [\<lparr>specifierIsTypeOnly = False, propertyName = Some ''A'', name = ''B''\<rparr>])\<rparr>,
      moduleSpecifier = ''p'', getStart = 0, getEnd = 30\<rparr>"

text \<open>The change of \<open>mergeEx_change\<close>, asking for a type-only import.\<close>

definition mergeEx_typeChange :: ImportChange where
  "mergeEx_typeChange = mergeEx_change\<lparr>changeIsTypeOnly := True\<rparr>"

text \<open>\<open>import D, { A as B, Foo } from "./old";\<close>\<close>

definition oldAlias_text :: string where
  \<open>oldAlias_text = ''import D, { A as B, Foo } from "./old";''\<close>

definition oldAlias_decl :: ImportDeclaration where
  "oldAlias_decl =
     \<lparr>importClause = Some \<lparr>isTypeOnly = False, defaultName = Some ''D'',
        namedBindings = Some (NamedImports
          [\<lparr>specifierIsTypeOnly = False, propertyName = Some ''A'', name = ''B''\<rparr>,
           \<lparr>specifierIsTypeOnly = False, propertyName = None, name = ''Foo''\<rparr>])\<rparr>,
      moduleSpecifier = ''./old'', getStart = 0, getEnd = 39\<rparr>"

text \<open>A file that imports \<open>Foo\<close> from \<open>./old\<close> twice, the second time type-only, and the
  change \<open>calculateChanges\<close> builds from what \<open>findExistingImportPath\<close> reports for it.\<close>

definition twiceOld_text :: string where
  \<open>twiceOld_text = ''import { Foo, A } from "./old";'' @ [CHR 0x0A] @
     ''import type { Foo, B } from "./old";'' @ [CHR 0x0A]\<close>

definition twiceOld_tree :: SourceFile where
  "twiceOld_tree =
     [ImportDeclarationNode (namedImportDecl False [''Foo'', ''A''] ''./old'' 0 31),
      ImportDeclarationNode (namedImportDecl True [''Foo'', ''B''] ''./old'' 32 68)]"

definition twiceOld_change :: ImportChange where
  "twiceOld_change =
     \<lparr>uri = ''/proj/b.ts'', oldImportPath = fst (findExistingImportPath twiceOld_tree ''Foo''),
      newImportPath = ''./new'', typeName = ''Foo'',
      changeIsTypeOnly = snd (findExistingImportPath twiceOld_tree ''Foo'')\<rparr>"

section \<open>Facts about findExistingImportPath\<close>

lemma findExistingImportPath_visit_other:
  "findExistingImportPath_visit tn r (OtherNode a b) = r"
  by (simp add: findExistingImportPath_visit_def)

lemma findExistingImportPath_visit_import:
  "findExistingImportPath_visit tn r (ImportDeclarationNode d) =
     (if bindsName tn d then (moduleSpecifier d, clauseIsTypeOnly d) else r)"
  by (simp add: findExistingImportPath_visit_def bindsName_def split: option.splits)

lemma findExistingImportPath_snoc:
  "findExistingImportPath (sf @ [n]) tn =
     findExistingImportPath_visit tn (findExistingImportPath sf tn) n"
  by (simp add: findExistingImportPath_def)

lemma importDeclarations_append:
  "importDeclarations (xs @ ys) = importDeclarations xs @ importDeclarations ys"
  by (induction xs rule: importDeclarations.induct) simp_all

lemma matchingImports_snoc_other:
  "matchingImports (sf @ [OtherNode a b]) tn = matchingImports sf tn"
  by (simp add: matchingImports_def importDeclarations_append)

lemma matchingImports_snoc_import:
  "matchingImports (sf @ [ImportDeclarationNode d]) tn =
     matchingImports sf tn @ (if bindsName tn d then [d] else [])"
  by (simp add: matchingImports_def importDeclarations_append)

text \<open>
  C7. The existing-import lookup visits every top-level import declaration in file order;
  each declaration whose named bindings include the type name overwrites the recorded
  result, so the specifier and the type-only flag returned are those of the last matching
  import in file order (and the empty path with flag false when none matches).
\<close>

theorem findExistingImportPath_last_match:
  "findExistingImportPath sf tn =
     (if matchingImports sf tn = [] then ('''', False)
      else (moduleSpecifier (last (matchingImports sf tn)),
            clauseIsTypeOnly (last (matchingImports sf tn))))"
proof (induction sf rule: rev_induct)
  case Nil
  show ?case by (simp add: findExistingImportPath_def matchingImports_def)
next
  case (snoc n sf)
  show ?case
  proof (cases n)
    case (OtherNode a b)
    then show ?thesis
      using snoc.IH
      by (simp only: findExistingImportPath_snoc findExistingImportPath_visit_other
          matchingImports_snoc_other)
  next
    case (ImportDeclarationNode d)
    then show ?thesis
      using snoc.IH
      by (simp add: findExistingImportPath_snoc findExistingImportPath_visit_import
          matchingImports_snoc_import)
  qed
qed

text \<open>
  C7 at a file with two imports that bind \<open>Foo\<close>: the second one, type-only and from
  \<open>./second\<close>, is the one reported.
\<close>

theorem findExistingImportPath_last_match_witness:
  "findExistingImportPath twoImports_tree ''Foo'' = (''./second'', True)"
  using findExistingImportPath_last_match[of twoImports_tree "''Foo''"]
  by (simp add: twoImports_tree_def namedImportDecl_def matchingImports_def bindsName_def
      getNamedImports_def someNamed_def clauseIsTypeOnly_def)

section \<open>Facts about the import rewriter\<close>

lemmas example_defs =
  mkDocument_def lineColumnAt_def namedImportDecl_def
  aliasTypes_text_def aliasTypes_tree_def aliasTypes_change_def
  mergeEx_text_def mergeEx_decl_def mergeEx_change_def
  typeOnlyEx_text_def typeOnlyEx_decl_def
  oldEx_text_def oldEx_decl_def oldEx_change_def
  splitEx_text_def splitEx_tree_def
  movedEx_text_def movedEx_decl_def movedEx_change_def
  noImportsEx_text_def noImportsEx_tree_def

lemmas rewriter_defs =
  calculateEditsForDocument_def calculateEdits_scan_def calculateEdits_visit_def
  handleOldImportPath_def handleNewImportPath_def addNewImport_def createEdit_def
  someNamed_def getNamedImports_def bindsName_def clauseIsTypeOnly_def Let_def

lemma handleNewImportPath_merge:
  assumes "getNamedImports d = Some els" and "\<not> someNamed (typeName c) els"
  shows \<open>handleNewImportPath d doc c edits =
     edits @ [createEdit (getStart d) (getEnd d)
       (''import '' @ (if clauseIsTypeOnly d \<or> changeIsTypeOnly c then ''type '' else '''') @
        ''{ '' @ join '', '' (sort (map name els @ [typeName c])) @
        '' } from "'' @ moduleSpecifier d @ ''";'') doc]\<close>
  using assms
  by (auto simp: handleNewImportPath_def getNamedImports_def clauseIsTypeOnly_def Let_def
      split: option.splits NamedImportBindings.splits)

lemma handleNewImportPath_skip:
  assumes "getNamedImports d = None \<or> bindsName (typeName c) d"
  shows "handleNewImportPath d doc c edits = edits"
  using assms
  by (auto simp: handleNewImportPath_def getNamedImports_def bindsName_def
      split: option.splits NamedImportBindings.splits)

lemma single_someNamed:
  "length els = 1 \<Longrightarrow> name (els ! 0) = tn \<Longrightarrow> someNamed tn els"
  by (cases els) (auto simp: someNamed_def)

lemma handleOldImportPath_skip:
  assumes "\<not> bindsName (typeName c) d"
  shows "handleOldImportPath d doc c edits = edits"
  using assms single_someNamed[of _ "typeName c"]
  by (auto simp: handleOldImportPath_def getNamedImports_def bindsName_def
      split: option.splits NamedImportBindings.splits)

lemma handleOldImportPath_rewrite:
  assumes "getNamedImports d = Some els" and "someNamed (typeName c) els"
    and "\<not> (length els = 1 \<and> name (els ! 0) = typeName c)"
  shows \<open>handleOldImportPath d doc c edits =
     edits @ [createEdit (getStart d) (getEnd d)
       (''import '' @ (if clauseIsTypeOnly d \<or> changeIsTypeOnly c then ''type '' else '''') @
        ''{ '' @ join '', '' (map name (filter (\<lambda>el. name el \<noteq> typeName c) els)) @
        '' } from "'' @ moduleSpecifier d @ ''";'') doc]\<close>
  using assms
  by (auto simp: handleOldImportPath_def getNamedImports_def clauseIsTypeOnly_def Let_def
      split: option.splits NamedImportBindings.splits)

lemma handleOldImportPath_grows:
  "\<exists>es. handleOldImportPath d doc c edits = edits @ es"
  by (auto simp: handleOldImportPath_def Let_def split: option.splits NamedImportBindings.splits)

lemma handleNewImportPath_grows:
  "\<exists>es. handleNewImportPath d doc c edits = edits @ es"
  by (auto simp: handleNewImportPath_def Let_def split: option.splits NamedImportBindings.splits)

lemma calculateEdits_visit_grows:
  "\<exists>es. editsToApply (calculateEdits_visit doc c st n) = editsToApply st @ es"
  using handleOldImportPath_grows[of _ doc c "editsToApply st"]
    handleNewImportPath_grows[of _ doc c "editsToApply st"]
  by (auto simp: calculateEdits_visit_def Let_def split: Node.splits)

lemma calculateEdits_fold_grows:
  "\<exists>es. editsToApply (foldl (calculateEdits_visit doc c) st sf) = editsToApply st @ es"
proof (induction sf arbitrary: st)
  case Nil
  show ?case by simp
next
  case (Cons n sf)
  obtain es1 where e1: "editsToApply (calculateEdits_visit doc c st n) = editsToApply st @ es1"
    using calculateEdits_visit_grows by blast
  obtain es2 where "editsToApply (foldl (calculateEdits_visit doc c) (calculateEdits_visit doc c st n) sf)
      = editsToApply (calculateEdits_visit doc c st n) @ es2"
    using Cons.IH by blast
  then show ?case using e1 by simp
qed

lemma calculateEdits_visit_import_old:
  "moduleSpecifier d = oldImportPath c \<Longrightarrow>
   editsToApply (calculateEdits_visit doc c st (ImportDeclarationNode d)) =
     handleOldImportPath d doc c (editsToApply st)"
  by (simp add: calculateEdits_visit_def Let_def)

lemma calculateEdits_visit_import_new:
  "moduleSpecifier d \<noteq> oldImportPath c \<Longrightarrow> moduleSpecifier d = newImportPath c \<Longrightarrow>
   editsToApply (calculateEdits_visit doc c st (ImportDeclarationNode d)) =
     handleNewImportPath d doc c (editsToApply st)"
  by (simp add: calculateEdits_visit_def Let_def)

lemma calculateEdits_fold_keeps:
  "e \<in> set (editsToApply st) \<Longrightarrow> e \<in> set (editsToApply (foldl (calculateEdits_visit doc c) st sf))"
  using calculateEdits_fold_grows[of doc c st sf] by auto

lemma calculateEdits_fold_contains:
  assumes "d \<in> set (importDeclarations sf)"
    and "\<And>st. e \<in> set (editsToApply (calculateEdits_visit doc c st (ImportDeclarationNode d)))"
  shows "e \<in> set (editsToApply (foldl (calculateEdits_visit doc c) st sf))"
  using assms(1)
proof (induction sf arbitrary: st rule: importDeclarations.induct)
  case 1
  then show ?case by simp
next
  case (2 decl rest)
  show ?case
  proof (cases "decl = d")
    case True
    then show ?thesis
      using assms(2) calculateEdits_fold_keeps by simp
  next
    case False
    then show ?thesis using 2 by simp
  qed
next
  case (3 a b rest)
  then show ?case by simp
qed

lemma calculateEditsForDocument_contains_scan:
  "e \<in> set (editsToApply (calculateEdits_scan doc c (parser (fileName doc) (getText doc))))
   \<Longrightarrow> e \<in> set (calculateEditsForDocument parser doc c)"
  by (simp add: calculateEditsForDocument_def Let_def addNewImport_def)

lemma not_single_when_other:
  assumes "\<exists>el \<in> set els. name el \<noteq> tn"
  shows "\<not> (length els = 1 \<and> name (els ! 0) = tn)"
proof
  assume a: "length els = 1 \<and> name (els ! 0) = tn"
  then obtain x where "els = [x]" by (cases els) auto
  with a assms show False by auto
qed

lemma calculateEdits_fold_unchanged:
  assumes "\<And>d st. d \<in> set (importDeclarations sf) \<Longrightarrow>
     editsToApply (calculateEdits_visit doc c st (ImportDeclarationNode d)) = editsToApply st"
  shows "editsToApply (foldl (calculateEdits_visit doc c) st sf) = editsToApply st"
  using assms
proof (induction sf arbitrary: st rule: importDeclarations.induct)
  case 1
  show ?case by simp
next
  case (2 decl rest)
  have "editsToApply (foldl (calculateEdits_visit doc c)
          (calculateEdits_visit doc c st (ImportDeclarationNode decl)) rest) =
        editsToApply (calculateEdits_visit doc c st (ImportDeclarationNode decl))"
    by (rule "2.IH") (simp add: "2.prems")
  then show ?case by (simp add: "2.prems")
next
  case (3 a b rest)
  have "calculateEdits_visit doc c st (OtherNode a b) = st"
    by (simp add: calculateEdits_visit_def)
  then show ?case using 3 by simp
qed

lemma calculateEdits_visit_hasExisting:
  "hasExistingImport (calculateEdits_visit doc c st n) =
     (hasExistingImport st \<or>
      (case n of OtherNode _ _ \<Rightarrow> False
       | ImportDeclarationNode d \<Rightarrow>
           moduleSpecifier d \<noteq> oldImportPath c \<and> moduleSpecifier d = newImportPath c))"
  by (auto simp: calculateEdits_visit_def Let_def split: Node.splits)

lemma calculateEdits_fold_hasExisting:
  "hasExistingImport (foldl (calculateEdits_visit doc c) st sf) =
     (hasExistingImport st \<or>
      (\<exists>d \<in> set (importDeclarations sf).
         moduleSpecifier d \<noteq> oldImportPath c \<and> moduleSpecifier d = newImportPath c))"
proof (induction sf arbitrary: st rule: importDeclarations.induct)
  case 1
  show ?case by simp
next
  case (2 decl rest)
  show ?case
    by (simp add: "2.IH" calculateEdits_visit_hasExisting)
next
  case (3 a b rest)
  show ?case
    by (simp add: "3.IH" calculateEdits_visit_hasExisting)
qed

lemma merge_edit_in_document:
  assumes "d \<in> set (importDeclarations (parser (fileName doc) (getText doc)))"
    and "moduleSpecifier d = newImportPath c"
    and "newImportPath c \<noteq> oldImportPath c"
    and "getNamedImports d = Some els"
    and "\<not> someNamed (typeName c) els"
  shows \<open>\<exists>e bs. e \<in> set (calculateEditsForDocument parser doc c) \<and>
           edit_range e = \<lparr>range_start = positionAt doc (getStart d),
                            range_end = positionAt doc (getEnd d)\<rparr> \<and>
           sorted bs \<and> mset bs = mset (map name els) + {#typeName c#} \<and>
           newText e =
             ''import '' @ (if clauseIsTypeOnly d \<or> changeIsTypeOnly c then ''type '' else '''') @
             ''{ '' @ join '', '' bs @ '' } from "'' @ newImportPath c @ ''";''\<close>
proof -
  let ?bs = "sort (map name els @ [typeName c])"
  let ?e = \<open>createEdit (getStart d) (getEnd d)
       (''import '' @ (if clauseIsTypeOnly d \<or> changeIsTypeOnly c then ''type '' else '''') @
        ''{ '' @ join '', '' ?bs @ '' } from "'' @ moduleSpecifier d @ ''";'') doc\<close>
  have visit: "?e \<in> set (editsToApply (calculateEdits_visit doc c st (ImportDeclarationNode d)))" for st
    using assms(2,3) handleNewImportPath_merge[OF assms(4,5), of doc "editsToApply st"]
    by (simp add: calculateEdits_visit_import_new)
  have "?e \<in> set (editsToApply (calculateEdits_scan doc c (parser (fileName doc) (getText doc))))"
    unfolding calculateEdits_scan_def
    by (rule calculateEdits_fold_contains[OF assms(1) visit])
  then have mem: "?e \<in> set (calculateEditsForDocument parser doc c)"
    by (rule calculateEditsForDocument_contains_scan)
  have rng: "edit_range ?e = \<lparr>range_start = positionAt doc (getStart d),
                            range_end = positionAt doc (getEnd d)\<rparr>"
    by (simp add: createEdit_def)
  have tex: \<open>newText ?e =
             ''import '' @ (if clauseIsTypeOnly d \<or> changeIsTypeOnly c then ''type '' else '''') @
             ''{ '' @ join '', '' ?bs @ '' } from "'' @ newImportPath c @ ''";''\<close>
    using assms(2) by (simp add: createEdit_def)
  have "sorted ?bs" and "mset ?bs = mset (map name els) + {#typeName c#}"
    by simp_all
  with mem rng tex show ?thesis by blast
qed

lemma old_rewrite_edit_in_document:
  assumes "d \<in> set (importDeclarations (parser (fileName doc) (getText doc)))"
    and "moduleSpecifier d = oldImportPath c"
    and "getNamedImports d = Some els"
    and "someNamed (typeName c) els"
    and "\<exists>el \<in> set els. name el \<noteq> typeName c"
  shows \<open>\<exists>e. e \<in> set (calculateEditsForDocument parser doc c) \<and>
           edit_range e = \<lparr>range_start = positionAt doc (getStart d),
                            range_end = positionAt doc (getEnd d)\<rparr> \<and>
           newText e =
             ''import '' @ (if clauseIsTypeOnly d \<or> changeIsTypeOnly c then ''type '' else '''') @
             ''{ '' @ join '', '' (filter (\<lambda>n. n \<noteq> typeName c) (map name els)) @
             '' } from "'' @ oldImportPath c @ ''";'' \<and>
           (isTypeOnlyImportText (newText e) \<longleftrightarrow> clauseIsTypeOnly d \<or> changeIsTypeOnly c)\<close>
proof -
  let ?e = \<open>createEdit (getStart d) (getEnd d)
       (''import '' @ (if clauseIsTypeOnly d \<or> changeIsTypeOnly c then ''type '' else '''') @
        ''{ '' @ join '', '' (map name (filter (\<lambda>el. name el \<noteq> typeName c) els)) @
        '' } from "'' @ moduleSpecifier d @ ''";'') doc\<close>
  note ns = not_single_when_other[OF assms(5)]
  have visit: "?e \<in> set (editsToApply (calculateEdits_visit doc c st (ImportDeclarationNode d)))" for st
    using assms(2) handleOldImportPath_rewrite[OF assms(3,4) ns, of doc "editsToApply st"]
    by (simp add: calculateEdits_visit_import_old)
  have "?e \<in> set (editsToApply (calculateEdits_scan doc c (parser (fileName doc) (getText doc))))"
    unfolding calculateEdits_scan_def
    by (rule calculateEdits_fold_contains[OF assms(1) visit])
  then have mem: "?e \<in> set (calculateEditsForDocument parser doc c)"
    by (rule calculateEditsForDocument_contains_scan)
  have rng: "edit_range ?e = \<lparr>range_start = positionAt doc (getStart d),
                            range_end = positionAt doc (getEnd d)\<rparr>"
    by (simp add: createEdit_def)
  have tex: \<open>newText ?e =
             ''import '' @ (if clauseIsTypeOnly d \<or> changeIsTypeOnly c then ''type '' else '''') @
             ''{ '' @ join '', '' (filter (\<lambda>n. n \<noteq> typeName c) (map name els)) @
             '' } from "'' @ oldImportPath c @ ''";''\<close>
    using assms(2) by (simp add: createEdit_def filter_map comp_def)
  have ty: "isTypeOnlyImportText (newText ?e) \<longleftrightarrow> clauseIsTypeOnly d \<or> changeIsTypeOnly c"
    by (simp add: createEdit_def isTypeOnlyImportText_def)
  from mem rng tex ty show ?thesis by blast
qed

lemmas example_defs2 =
  defaultAlias_text_def defaultAlias_decl_def mergeEx_typeChange_def
  oldAlias_text_def oldAlias_decl_def twiceOld_text_def twiceOld_tree_def twiceOld_change_def
  findExistingImportPath_def findExistingImportPath_visit_def

lemma plain_bindingText:
  "\<forall>el \<in> set els. plainBinding el \<Longrightarrow> map bindingText els = map name els"
  by (induction els) (auto simp: plainBinding_def bindingText_def)

lemma plain_bindingText_filter:
  "\<forall>el \<in> set els. plainBinding el \<Longrightarrow>
   map bindingText (filter P els) = map name (filter P els)"
  by (rule plain_bindingText) simp

section \<open>Merging into an import at the new path\<close>

text \<open>
  C1 fails as stated. When the new specifier is also the old one, the declaration is
  handled as an import at the old path and never merged: below, both imports come from
  \<open>@/types\<close> and \<open>Y\<close> moves to a file with the same alias; the import of \<open>X\<close> is left
  alone, the import of \<open>Y\<close> is deleted and a fresh import of \<open>Y\<close> is inserted. And the
  merged list is built from the local names alone: \<open>import D, { A as B } from "p"\<close> plus
  \<open>Y\<close> becomes \<open>import { B, Y } from "p";\<close>, without \<open>D\<close> and without \<open>A as\<close>.
\<close>

theorem merge_ignores_declaration_at_old_specifier:
  \<open>map newText (calculateEditsForDocument (\<lambda>_ _. aliasTypes_tree)
     (mkDocument ''/root/src/b.ts'' aliasTypes_text) aliasTypes_change) =
     [''import { Y } from "@/types";'' @ [CHR 0x0A], ''''] \<and>
   map newText (calculateEditsForDocument (\<lambda>_ _. [ImportDeclarationNode defaultAlias_decl])
     (mkDocument ''/proj/b.ts'' defaultAlias_text) mergeEx_change) =
     [''import { B, Y } from "p";''] \<and>
   map bindingText (the (getNamedImports defaultAlias_decl)) = [''A as B'']\<close>
  by (simp add: rewriter_defs example_defs example_defs2 bindingText_def)

text \<open>
  C1, amended. When the new specifier differs from the old one, every import declaration
  at the new specifier that consists of plain named bindings (no default import, no
  renamed binding, no \<open>type\<close> modifier on a binding) not including the moved type name is
  replaced (an edit over the declaration's range) by an import statement from the same
  specifier whose binding list is exactly the existing bindings plus the moved type name,
  sorted in the ascending string order of JavaScript's default sort.
\<close>

theorem merge_into_existing_import:
  assumes "d \<in> set (importDeclarations (parser (fileName doc) (getText doc)))"
    and "moduleSpecifier d = newImportPath c"
    and "newImportPath c \<noteq> oldImportPath c"
    and "namedBindingsOnly d"
    and "getNamedImports d = Some els"
    and "\<forall>el \<in> set els. plainBinding el"
    and "\<not> someNamed (typeName c) els"
  shows \<open>\<exists>e bs. e \<in> set (calculateEditsForDocument parser doc c) \<and>
           edit_range e = \<lparr>range_start = positionAt doc (getStart d),
                            range_end = positionAt doc (getEnd d)\<rparr> \<and>
           sorted bs \<and> mset bs = mset (map bindingText els) + {#typeName c#} \<and>
           newText e =
             ''import '' @ (if clauseIsTypeOnly d \<or> changeIsTypeOnly c then ''type '' else '''') @
             ''{ '' @ join '', '' bs @ '' } from "'' @ newImportPath c @ ''";''\<close>
  unfolding plain_bindingText[OF assms(6)]
  using assms(1,2,3,5,7) by (rule merge_edit_in_document[of d parser doc c els])

text \<open>
  The amended C1 at the spec's example: \<open>{ X }\<close> from \<open>p\<close> plus a move of \<open>Y\<close> to \<open>p\<close>
  gives \<open>import { X, Y } from "p";\<close>.
\<close>

theorem merge_into_existing_import_witness:
  \<open>(\<exists>e bs. e \<in> set (calculateEditsForDocument (\<lambda>_ _. [ImportDeclarationNode mergeEx_decl])
              (mkDocument ''/proj/b.ts'' mergeEx_text) mergeEx_change) \<and>
           edit_range e = \<lparr>range_start = \<lparr>line = 0, character = 0\<rparr>,
                            range_end = \<lparr>line = 0, character = 22\<rparr>\<rparr> \<and>
           sorted bs \<and> mset bs = {#''X'', ''Y''#} \<and>
           newText e = ''import { '' @ join '', '' bs @ '' } from "p";'') \<and>
   map newText (calculateEditsForDocument (\<lambda>_ _. [ImportDeclarationNode mergeEx_decl])
              (mkDocument ''/proj/b.ts'' mergeEx_text) mergeEx_change) =
     [''import { X, Y } from "p";'']\<close>
proof -
  let ?doc = "mkDocument ''/proj/b.ts'' mergeEx_text"
  let ?parse = "\<lambda>(_::string) (_::string). [ImportDeclarationNode mergeEx_decl]"
  let ?els = "[\<lparr>specifierIsTypeOnly = False, propertyName = None, name = ''X''\<rparr>]"
  have d: "mergeEx_decl \<in> set (importDeclarations (?parse (fileName ?doc) (getText ?doc)))"
    by simp
  have s: "moduleSpecifier mergeEx_decl = newImportPath mergeEx_change"
    by (simp add: example_defs)
  have n: "newImportPath mergeEx_change \<noteq> oldImportPath mergeEx_change"
    by (simp add: example_defs)
  have o: "namedBindingsOnly mergeEx_decl"
    by (simp add: example_defs namedBindingsOnly_def)
  have g: "getNamedImports mergeEx_decl = Some ?els"
    by (simp add: example_defs getNamedImports_def)
  have p: "\<forall>el \<in> set ?els. plainBinding el"
    by (simp add: plainBinding_def)
  have b: "\<not> someNamed (typeName mergeEx_change) ?els"
    by (simp add: example_defs someNamed_def)
  obtain e bs where e: "e \<in> set (calculateEditsForDocument ?parse ?doc mergeEx_change)"
    and r: "edit_range e = \<lparr>range_start = positionAt ?doc (getStart mergeEx_decl),
                            range_end = positionAt ?doc (getEnd mergeEx_decl)\<rparr>"
    and so: "sorted bs" and ms: "mset bs = mset (map bindingText ?els) + {#typeName mergeEx_change#}"
    and t: \<open>newText e = ''import '' @
        (if clauseIsTypeOnly mergeEx_decl \<or> changeIsTypeOnly mergeEx_change then ''type '' else '''') @
             ''{ '' @ join '', '' bs @ '' } from "'' @ newImportPath mergeEx_change @ ''";''\<close>
    using merge_into_existing_import[of mergeEx_decl ?parse ?doc mergeEx_change ?els] d s n o g p b
    by blast
  have r': "edit_range e = \<lparr>range_start = \<lparr>line = 0, character = 0\<rparr>,
                            range_end = \<lparr>line = 0, character = 22\<rparr>\<rparr>"
    using r by (simp add: example_defs)
  have ms': "mset bs = {#''X'', ''Y''#}"
    using ms by (simp add: example_defs bindingText_def)
  have t': \<open>newText e = ''import { '' @ join '', '' bs @ '' } from "p";''\<close>
    using t by (simp add: example_defs clauseIsTypeOnly_def)
  have ev: \<open>map newText (calculateEditsForDocument ?parse ?doc mergeEx_change) =
     [''import { X, Y } from "p";'']\<close>
    by (simp add: rewriter_defs example_defs)
  from e r' so ms' t' ev show ?thesis by blast
qed

text \<open>
  C2. For every import declaration of a file at the new specifier (which is not the old
  one) whose named bindings do not include the moved type, the rewriter merges: the
  handler pushes one edit, the edit is in the file's edit set and covers the declaration,
  and the merged import is type-only exactly when the existing declaration was type-only
  or the incoming change is type-only.
\<close>

theorem merged_import_type_only_union:
  assumes "d \<in> set (importDeclarations (parser (fileName doc) (getText doc)))"
    and "moduleSpecifier d = newImportPath c"
    and "newImportPath c \<noteq> oldImportPath c"
    and "getNamedImports d = Some els"
    and "\<not> someNamed (typeName c) els"
  shows "\<exists>e. handleNewImportPath d doc c edits = edits @ [e] \<and>
           e \<in> set (calculateEditsForDocument parser doc c) \<and>
           edit_range e = \<lparr>range_start = positionAt doc (getStart d),
                            range_end = positionAt doc (getEnd d)\<rparr> \<and>
           (isTypeOnlyImportText (newText e) \<longleftrightarrow> clauseIsTypeOnly d \<or> changeIsTypeOnly c)"
proof -
  let ?e = \<open>createEdit (getStart d) (getEnd d)
       (''import '' @ (if clauseIsTypeOnly d \<or> changeIsTypeOnly c then ''type '' else '''') @
        ''{ '' @ join '', '' (sort (map name els @ [typeName c])) @
        '' } from "'' @ moduleSpecifier d @ ''";'') doc\<close>
  have push: "handleNewImportPath d doc c es = es @ [?e]" for es
    by (rule handleNewImportPath_merge[OF assms(4,5)])
  have visit: "?e \<in> set (editsToApply (calculateEdits_visit doc c st (ImportDeclarationNode d)))" for st
    using assms(2,3) push[of "editsToApply st"]
    by (simp add: calculateEdits_visit_import_new)
  have "?e \<in> set (editsToApply (calculateEdits_scan doc c (parser (fileName doc) (getText doc))))"
    unfolding calculateEdits_scan_def
    by (rule calculateEdits_fold_contains[OF assms(1) visit])
  then have mem: "?e \<in> set (calculateEditsForDocument parser doc c)"
    by (rule calculateEditsForDocument_contains_scan)
  have rng: "edit_range ?e = \<lparr>range_start = positionAt doc (getStart d),
                            range_end = positionAt doc (getEnd d)\<rparr>"
    by (simp add: createEdit_def)
  have ty: "isTypeOnlyImportText (newText ?e) \<longleftrightarrow> clauseIsTypeOnly d \<or> changeIsTypeOnly c"
    by (simp add: createEdit_def isTypeOnlyImportText_def)
  from push[of edits] mem rng ty show ?thesis by blast
qed

text \<open>
  C2 in its three cases: a type-only import of \<open>X\<close> with a regular move of \<open>Y\<close> keeps the
  \<open>type\<close> keyword, a regular import of \<open>X\<close> with a type-only move of \<open>Y\<close> gains it, and a
  regular import with a regular move stays regular.
\<close>

theorem merged_import_type_only_union_witness:
  \<open>(\<exists>e. handleNewImportPath typeOnlyEx_decl (mkDocument ''/proj/b.ts'' typeOnlyEx_text)
          mergeEx_change [] = [e] \<and> isTypeOnlyImportText (newText e)) \<and>
   (\<exists>e. handleNewImportPath mergeEx_decl (mkDocument ''/proj/b.ts'' mergeEx_text)
          mergeEx_typeChange [] = [e] \<and> isTypeOnlyImportText (newText e)) \<and>
   (\<exists>e. handleNewImportPath mergeEx_decl (mkDocument ''/proj/b.ts'' mergeEx_text)
          mergeEx_change [] = [e] \<and> \<not> isTypeOnlyImportText (newText e)) \<and>
   map newText (calculateEditsForDocument (\<lambda>_ _. [ImportDeclarationNode typeOnlyEx_decl])
     (mkDocument ''/proj/b.ts'' typeOnlyEx_text) mergeEx_change) =
     [''import type { X, Y } from "p";''] \<and>
   map newText (calculateEditsForDocument (\<lambda>_ _. [ImportDeclarationNode mergeEx_decl])
     (mkDocument ''/proj/b.ts'' mergeEx_text) mergeEx_typeChange) =
     [''import type { X, Y } from "p";'']\<close>
proof -
  let ?els = "[\<lparr>specifierIsTypeOnly = False, propertyName = None, name = ''X''\<rparr>]"
  let ?tdoc = "mkDocument ''/proj/b.ts'' typeOnlyEx_text"
  let ?rdoc = "mkDocument ''/proj/b.ts'' mergeEx_text"
  let ?tparse = "\<lambda>(_::string) (_::string). [ImportDeclarationNode typeOnlyEx_decl]"
  let ?rparse = "\<lambda>(_::string) (_::string). [ImportDeclarationNode mergeEx_decl]"
  have gt: "getNamedImports typeOnlyEx_decl = Some ?els"
    and gr: "getNamedImports mergeEx_decl = Some ?els"
    by (simp_all add: example_defs getNamedImports_def)
  have b: "\<not> someNamed (typeName mergeEx_change) ?els"
    and b': "\<not> someNamed (typeName mergeEx_typeChange) ?els"
    by (simp_all add: example_defs example_defs2 someNamed_def)
  have dt: "typeOnlyEx_decl \<in> set (importDeclarations (?tparse (fileName ?tdoc) (getText ?tdoc)))"
    and dr: "mergeEx_decl \<in> set (importDeclarations (?rparse (fileName ?rdoc) (getText ?rdoc)))"
    by simp_all
  have st: "moduleSpecifier typeOnlyEx_decl = newImportPath mergeEx_change"
    and sr: "moduleSpecifier mergeEx_decl = newImportPath mergeEx_change"
    and sr': "moduleSpecifier mergeEx_decl = newImportPath mergeEx_typeChange"
    and n: "newImportPath mergeEx_change \<noteq> oldImportPath mergeEx_change"
    and n': "newImportPath mergeEx_typeChange \<noteq> oldImportPath mergeEx_typeChange"
    by (simp_all add: example_defs example_defs2)
  obtain e1 where e1: "handleNewImportPath typeOnlyEx_decl ?tdoc mergeEx_change [] = [] @ [e1]"
    and t1: "isTypeOnlyImportText (newText e1) \<longleftrightarrow>
               clauseIsTypeOnly typeOnlyEx_decl \<or> changeIsTypeOnly mergeEx_change"
    using merged_import_type_only_union[of typeOnlyEx_decl ?tparse ?tdoc mergeEx_change ?els "[]"]
      dt st n gt b by blast
  obtain e2 where e2: "handleNewImportPath mergeEx_decl ?rdoc mergeEx_typeChange [] = [] @ [e2]"
    and t2: "isTypeOnlyImportText (newText e2) \<longleftrightarrow>
               clauseIsTypeOnly mergeEx_decl \<or> changeIsTypeOnly mergeEx_typeChange"
    using merged_import_type_only_union[of mergeEx_decl ?rparse ?rdoc mergeEx_typeChange ?els "[]"]
      dr sr' n' gr b' by blast
  obtain e3 where e3: "handleNewImportPath mergeEx_decl ?rdoc mergeEx_change [] = [] @ [e3]"
    and t3: "isTypeOnlyImportText (newText e3) \<longleftrightarrow>
               clauseIsTypeOnly mergeEx_decl \<or> changeIsTypeOnly mergeEx_change"
    using merged_import_type_only_union[of mergeEx_decl ?rparse ?rdoc mergeEx_change ?els "[]"]
      dr sr n gr b by blast
  have 1: "\<exists>e. handleNewImportPath typeOnlyEx_decl ?tdoc mergeEx_change [] = [e] \<and>
             isTypeOnlyImportText (newText e)"
    using e1 t1 by (simp add: example_defs clauseIsTypeOnly_def)
  have 2: "\<exists>e. handleNewImportPath mergeEx_decl ?rdoc mergeEx_typeChange [] = [e] \<and>
             isTypeOnlyImportText (newText e)"
    using e2 t2 by (simp add: example_defs example_defs2 clauseIsTypeOnly_def)
  have 3: "\<exists>e. handleNewImportPath mergeEx_decl ?rdoc mergeEx_change [] = [e] \<and>
             \<not> isTypeOnlyImportText (newText e)"
    using e3 t3 by (simp add: example_defs clauseIsTypeOnly_def)
  have 4: \<open>map newText (calculateEditsForDocument ?tparse ?tdoc mergeEx_change) =
     [''import type { X, Y } from "p";'']\<close>
    by (simp add: rewriter_defs example_defs)
  have 5: \<open>map newText (calculateEditsForDocument ?rparse ?rdoc mergeEx_typeChange) =
     [''import type { X, Y } from "p";'']\<close>
    by (simp add: rewriter_defs example_defs example_defs2)
  from 1 2 3 4 5 show ?thesis by blast
qed

section \<open>Rewriting an import at the old path\<close>

text \<open>
  C3 fails as stated. The remaining bindings keep their order in the file: \<open>{ Zed, Foo,
  Alpha }\<close> without \<open>Foo\<close> is \<open>{ Zed, Alpha }\<close>, which is not sorted. The list is built
  from the local names alone: \<open>import D, { A as B, Foo }\<close> becomes \<open>import { B }\<close>. And
  in a file that imports \<open>Foo\<close> from \<open>./old\<close> twice, the second time type-only, the change
  is type-only and the first declaration, which was not, is rewritten with \<open>type\<close>.
\<close>

theorem rewrite_old_import_unsorted_and_typed:
  \<open>map newText (calculateEditsForDocument (\<lambda>_ _. [ImportDeclarationNode oldEx_decl])
       (mkDocument ''/proj/b.ts'' oldEx_text) (oldEx_change False)) =
     [''import { Foo } from "./new";'' @ [CHR 0x0A], ''import { Zed, Alpha } from "./old";''] \<and>
   \<not> sorted [''Zed'', ''Alpha''] \<and>
   map newText (calculateEditsForDocument (\<lambda>_ _. [ImportDeclarationNode oldAlias_decl])
       (mkDocument ''/proj/b.ts'' oldAlias_text) (oldEx_change False)) =
     [''import { Foo } from "./new";'' @ [CHR 0x0A], ''import { B } from "./old";''] \<and>
   findExistingImportPath twiceOld_tree ''Foo'' = (''./old'', True) \<and>
   map newText (calculateEditsForDocument (\<lambda>_ _. twiceOld_tree)
       (mkDocument ''/proj/b.ts'' twiceOld_text) twiceOld_change) =
     [''import type { Foo } from "./new";'' @ [CHR 0x0A],
      ''import type { B } from "./old";'', ''import type { A } from "./old";'']\<close>
  by (simp add: rewriter_defs example_defs example_defs2)

text \<open>
  C3, amended. Every import declaration at the old specifier that consists of plain named
  bindings (no default import, no renamed binding, no \<open>type\<close> modifier on a binding) and
  binds the moved type together with other bindings is replaced, under a change that is
  not type-only unless the declaration is, by an import statement listing exactly the
  remaining bindings in their original order (not sorted); the replacement carries the
  \<open>type\<close> keyword exactly when the original declaration was type-only.
\<close>

theorem rewrite_old_import_keeps_order:
  assumes "d \<in> set (importDeclarations (parser (fileName doc) (getText doc)))"
    and "moduleSpecifier d = oldImportPath c"
    and "namedBindingsOnly d"
    and "getNamedImports d = Some els"
    and "\<forall>el \<in> set els. plainBinding el"
    and "someNamed (typeName c) els"
    and "\<exists>el \<in> set els. name el \<noteq> typeName c"
    and "changeIsTypeOnly c \<longrightarrow> clauseIsTypeOnly d"
  shows \<open>\<exists>e. e \<in> set (calculateEditsForDocument parser doc c) \<and>
           edit_range e = \<lparr>range_start = positionAt doc (getStart d),
                            range_end = positionAt doc (getEnd d)\<rparr> \<and>
           newText e =
             ''import '' @ (if clauseIsTypeOnly d then ''type '' else '''') @
             ''{ '' @ join '', '' (map bindingText (filter (\<lambda>el. name el \<noteq> typeName c) els)) @
             '' } from "'' @ oldImportPath c @ ''";'' \<and>
           (isTypeOnlyImportText (newText e) \<longleftrightarrow> clauseIsTypeOnly d)\<close>
proof -
  have kw: "(clauseIsTypeOnly d \<or> changeIsTypeOnly c) = clauseIsTypeOnly d"
    using assms(8) by blast
  have names: "filter (\<lambda>n. n \<noteq> typeName c) (map name els) =
               map bindingText (filter (\<lambda>el. name el \<noteq> typeName c) els)"
    using plain_bindingText_filter[OF assms(5)] by (simp add: filter_map comp_def)
  have \<open>\<exists>e. e \<in> set (calculateEditsForDocument parser doc c) \<and>
           edit_range e = \<lparr>range_start = positionAt doc (getStart d),
                            range_end = positionAt doc (getEnd d)\<rparr> \<and>
           newText e =
             ''import '' @ (if clauseIsTypeOnly d \<or> changeIsTypeOnly c then ''type '' else '''') @
             ''{ '' @ join '', '' (filter (\<lambda>n. n \<noteq> typeName c) (map name els)) @
             '' } from "'' @ oldImportPath c @ ''";'' \<and>
           (isTypeOnlyImportText (newText e) \<longleftrightarrow> clauseIsTypeOnly d \<or> changeIsTypeOnly c)\<close>
    using assms(1,2,4,6,7) by (rule old_rewrite_edit_in_document[of d parser doc c els])
  then show ?thesis
    unfolding kw names .
qed

text \<open>
  The amended C3 at \<open>{ Zed, Foo, Alpha }\<close> with \<open>Foo\<close> moved away.
\<close>

theorem rewrite_old_import_keeps_order_witness:
  \<open>\<exists>e. e \<in> set (calculateEditsForDocument (\<lambda>_ _. [ImportDeclarationNode oldEx_decl])
              (mkDocument ''/proj/b.ts'' oldEx_text) (oldEx_change False)) \<and>
        edit_range e = \<lparr>range_start = \<lparr>line = 0, character = 0\<rparr>,
                         range_end = \<lparr>line = 0, character = 40\<rparr>\<rparr> \<and>
        newText e = ''import { Zed, Alpha } from "./old";'' \<and>
        \<not> isTypeOnlyImportText (newText e)\<close>
proof -
  let ?doc = "mkDocument ''/proj/b.ts'' oldEx_text"
  let ?parse = "\<lambda>(_::string) (_::string). [ImportDeclarationNode oldEx_decl]"
  let ?els = "map (\<lambda>n. \<lparr>specifierIsTypeOnly = False, propertyName = None, name = n\<rparr>) [''Zed'', ''Foo'', ''Alpha'']"
  let ?c = "oldEx_change False"
  have d: "oldEx_decl \<in> set (importDeclarations (?parse (fileName ?doc) (getText ?doc)))"
    by simp
  have s: "moduleSpecifier oldEx_decl = oldImportPath ?c"
    by (simp add: example_defs)
  have n: "namedBindingsOnly oldEx_decl"
    by (simp add: example_defs namedBindingsOnly_def)
  have g: "getNamedImports oldEx_decl = Some ?els"
    by (simp add: example_defs getNamedImports_def)
  have p: "\<forall>el \<in> set ?els. plainBinding el"
    by (simp add: plainBinding_def)
  have b: "someNamed (typeName ?c) ?els"
    by (simp add: example_defs someNamed_def)
  have o: "\<exists>el \<in> set ?els. name el \<noteq> typeName ?c"
    by (simp add: example_defs)
  have k: "changeIsTypeOnly ?c \<longrightarrow> clauseIsTypeOnly oldEx_decl"
    by (simp add: example_defs)
  obtain e where e: "e \<in> set (calculateEditsForDocument ?parse ?doc ?c)"
    and r: "edit_range e = \<lparr>range_start = positionAt ?doc (getStart oldEx_decl),
                            range_end = positionAt ?doc (getEnd oldEx_decl)\<rparr>"
    and t: \<open>newText e = ''import '' @
        (if clauseIsTypeOnly oldEx_decl then ''type '' else '''') @
             ''{ '' @ join '', '' (map bindingText (filter (\<lambda>el. name el \<noteq> typeName ?c) ?els)) @
             '' } from "'' @ oldImportPath ?c @ ''";''\<close>
    and ty: "isTypeOnlyImportText (newText e) \<longleftrightarrow> clauseIsTypeOnly oldEx_decl"
    using rewrite_old_import_keeps_order[of oldEx_decl ?parse ?doc ?c ?els] d s n g p b o k
    by blast
  have r': "edit_range e = \<lparr>range_start = \<lparr>line = 0, character = 0\<rparr>,
                            range_end = \<lparr>line = 0, character = 40\<rparr>\<rparr>"
    using r by (simp add: example_defs)
  have t': \<open>newText e = ''import { Zed, Alpha } from "./old";''\<close>
    using t by (simp add: example_defs clauseIsTypeOnly_def bindingText_def)
  have ty': "\<not> isTypeOnlyImportText (newText e)"
    using ty by (simp add: example_defs clauseIsTypeOnly_def)
  from e r' t' ty' show ?thesis by blast
qed

section \<open>Re-running the rewrite\<close>

text \<open>
  C8 fails as stated: with a type import and a value import from the new specifier, the
  first binds the moved type already, and still the second is rewritten to bind it too.
\<close>

theorem second_import_at_new_specifier_is_edited:
  \<open>map newText (calculateEditsForDocument (\<lambda>_ _. splitEx_tree)
       (mkDocument ''/proj/b.ts'' splitEx_text) (movedEx_change True)) =
     [''import type { Foo, helper } from "./c";'']\<close>
  by (simp add: rewriter_defs example_defs)

text \<open>
  C8, amended. When some import at the new specifier binds the type name, every import
  at the new specifier that has named bindings binds it, and no import at the old
  specifier binds it, the edit set for the change is empty.
\<close>

theorem no_edits_when_change_already_applied:
  assumes "\<exists>d \<in> set (importDeclarations (parser (fileName doc) (getText doc))).
             moduleSpecifier d = newImportPath c \<and> bindsName (typeName c) d"
    and "\<forall>d \<in> set (importDeclarations (parser (fileName doc) (getText doc))).
             moduleSpecifier d = newImportPath c \<longrightarrow> getNamedImports d \<noteq> None \<longrightarrow>
             bindsName (typeName c) d"
    and "\<forall>d \<in> set (importDeclarations (parser (fileName doc) (getText doc))).
             moduleSpecifier d = oldImportPath c \<longrightarrow> \<not> bindsName (typeName c) d"
  shows "calculateEditsForDocument parser doc c = []"
proof -
  let ?sf = "parser (fileName doc) (getText doc)"
  have visit: "editsToApply (calculateEdits_visit doc c st (ImportDeclarationNode d)) = editsToApply st"
    if "d \<in> set (importDeclarations ?sf)" for d st
  proof (cases "moduleSpecifier d = oldImportPath c")
    case True
    then show ?thesis
      using assms(3) that
      by (simp add: calculateEdits_visit_import_old handleOldImportPath_skip)
  next
    case False
    show ?thesis
    proof (cases "moduleSpecifier d = newImportPath c")
      case True
      then have "getNamedImports d = None \<or> bindsName (typeName c) d"
        using assms(2) that by blast
      then show ?thesis
        using False True
        by (simp add: calculateEdits_visit_import_new handleNewImportPath_skip)
    next
      case nn: False
      show ?thesis using False nn by (simp add: calculateEdits_visit_def Let_def)
    qed
  qed
  have ed: "editsToApply (calculateEdits_scan doc c ?sf) = []"
    unfolding calculateEdits_scan_def
    using calculateEdits_fold_unchanged[of ?sf doc c, OF visit] by simp
  obtain d where d: "d \<in> set (importDeclarations ?sf)" "moduleSpecifier d = newImportPath c"
      "bindsName (typeName c) d"
    using assms(1) by blast
  then have "moduleSpecifier d \<noteq> oldImportPath c"
    using assms(3) by blast
  with d have "\<exists>d \<in> set (importDeclarations ?sf).
         moduleSpecifier d \<noteq> oldImportPath c \<and> moduleSpecifier d = newImportPath c"
    by metis
  then have "hasExistingImport (calculateEdits_scan doc c ?sf)"
    unfolding calculateEdits_scan_def calculateEdits_fold_hasExisting by simp
  with ed show ?thesis
    by (simp add: calculateEditsForDocument_def Let_def)
qed

text \<open>
  The amended C8 at a file that holds \<open>import { Foo }\<close> from the new specifier only.
\<close>

theorem no_edits_when_change_already_applied_witness:
  "calculateEditsForDocument (\<lambda>_ _. [ImportDeclarationNode movedEx_decl])
     (mkDocument ''/proj/b.ts'' movedEx_text) (movedEx_change False) = []"
  by (rule no_edits_when_change_already_applied)
    (simp_all add: example_defs getNamedImports_def someNamed_def bindsName_def)

section \<open>Synthesizing a new import\<close>

text \<open>
  C4. In a file with no import declaration the scan leaves \<open>lastImportPos\<close> at 0, and
  the new import is inserted at line 1, below the first line of the file (here inside the
  object literal that starts on line 0), not at the top.
\<close>

theorem new_import_below_first_line_without_imports:
  \<open>calculateEditsForDocument (\<lambda>_ _. noImportsEx_tree)
     (mkDocument ''/proj/b.ts'' noImportsEx_text) (movedEx_change False) =
   [\<lparr>edit_range = \<lparr>range_start = \<lparr>line = 1, character = 0\<rparr>,
                    range_end = \<lparr>line = 1, character = 0\<rparr>\<rparr>,
     newText = ''import { Foo } from "./c";'' @ [CHR 0x0A]\<rparr>]\<close>
  by (simp add: rewriter_defs example_defs)

section \<open>Facts about the path resolver and the workspace\<close>

lemmas path_defs =
  path_resolve_def resolvedSegments_def path_relative_def path_dirname_def path_normalize_def
  path_join_def startsWith_def endsWith_def stripTrailingStar_def stripExtension_def truthy_def

lemma tryMatchPathAlias_loop_skip:
  assumes "\<forall>(p, ts) \<in> set earlier. ts \<noteq> [] \<and>
             \<not> startsWith file (path_resolve wd [base, stripTrailingStar (hd ts)])"
  shows "tryMatchPathAlias_loop wd base file (earlier @ rest) =
         tryMatchPathAlias_loop wd base file rest"
  using assms
proof (induction earlier)
  case Nil
  show ?case by simp
next
  case (Cons entry earlier)
  obtain p ts where entry: "entry = (p, ts)" by (cases entry)
  from Cons.prems entry obtain t others where ts: "ts = t # others"
    by (cases ts) auto
  from Cons.prems entry ts have "\<not> startsWith file (path_resolve wd [base, stripTrailingStar t])"
    by simp
  moreover have "tryMatchPathAlias_loop wd base file (earlier @ rest) =
         tryMatchPathAlias_loop wd base file rest"
    using Cons by simp
  ultimately show ?case using entry ts by (simp add: Let_def)
qed

lemma tryMatchPathAlias_loop_hit:
  assumes "startsWith file (path_resolve wd [base, stripTrailingStar target])"
  shows "tryMatchPathAlias_loop wd base file ((pat, target # others) # later) =
         Inr (Some (stripExtension (stripTrailingStar pat @
           path_relative wd (path_resolve wd [base, stripTrailingStar target]) file)))"
  using assms by (simp add: Let_def)

lemma rootAlias_match:
  "tryMatchPathAlias wd rootAlias_resolver ''/root/src/utils/helper.ts'' =
     Inr (Some ''@/utils/helper'')"
  by (simp add: tryMatchPathAlias_def rootAlias_resolver_def path_defs Let_def)

lemma loadTsConfig_paths_None:
  assumes "loadFails host root"
  shows "paths (loadTsConfig host root emptyResolver) = None"
  using assms
  by (auto simp: loadFails_def loadTsConfig_def loadTsConfig_try_def emptyResolver_def Let_def
      split: ReadResult.splits option.splits)

lemma tryMatchPathAlias_no_paths:
  "paths r = None \<Longrightarrow> tryMatchPathAlias wd r p = Inr None"
  by (simp add: tryMatchPathAlias_def)

lemma relativeSpecifier_starts_with_dot:
  "startsWith (relativeSpecifier wd fromPath toPath) ''.''"
  by (simp add: relativeSpecifier_def Let_def startsWith_def)

lemma openTextDocument_frame: "snd (openTextDocument editor path ws) = ws"
  by (simp add: openTextDocument_def split: option.splits)

lemma calculateChanges_loop_frame:
  "snd (calculateChanges_loop editor resolver typeInfo destPath refs pushed ws) = ws"
proof (induction refs arbitrary: pushed)
  case Nil
  show ?case by simp
next
  case (Cons ref rest)
  show ?case
  proof (cases "ws (loc_uri ref)")
    case None
    then show ?thesis by (simp add: openTextDocument_def)
  next
    case (Some contents)
    then show ?thesis
      by (simp add: openTextDocument_def Let_def Cons.IH split: sum.splits)
  qed
qed

lemma updateImports_writes:
  assumes "ws (uri change) = Some text"
  shows "updateImports editor \<lparr>importChanges = [change], typeContent = content\<rparr> ws =
     (Inr (), ws(uri change \<mapsto> applyTextEdits editor text
        (calculateEditsForDocument (createSourceFile editor)
           \<lparr>fileName = uri change, getText = text, positionAt = positionOf editor text\<rparr> change)))"
  using assms
  by (simp add: updateImports_def openTextDocument_def applyEdits_def Let_def)

lemmas scenario_defs =
  scenario_a_text_def scenario_b_text_def scenario_b_tree_def scenario_workspace_def
  scenario_b_moved_text_def scenario_b_moved_tree_def
  scenario_editor_def scenario_typeInfo_def scenario_references_def scenario_change_def
  namedImportDecl_def lineColumnAt_def mkDocument_def

lemma scenario_changes:
  "fst (calculateChanges scenario_editor emptyResolver scenario_typeInfo ''/proj/a.ts''
          ''/proj/c.ts'' scenario_references scenario_workspace) =
     Inr \<lparr>importChanges = [scenario_change, scenario_change],
          typeContent = ''export interface Foo { id: string }''\<rparr>"
  by (simp add: calculateChanges_def openTextDocument_def scenario_defs emptyResolver_def
      findExistingImportPath_def findExistingImportPath_visit_def getNamedImports_def
      someNamed_def clauseIsTypeOnly_def tryMatchPathAlias_def resolveImportPath_def
      relativeSpecifier_def path_defs Let_def)

lemma load_failure_matches_no_alias:
  assumes "loadFails host workspaceRoot"
  shows "\<exists>r. newPathResolver host workspaceRoot = Inr r \<and>
           (\<forall>p. tryMatchPathAlias wd r p = Inr None) \<and>
           (\<forall>fromPath toPath.
              resolveImportPath wd r fromPath toPath = Inr (relativeSpecifier wd fromPath toPath) \<and>
              startsWith (relativeSpecifier wd fromPath toPath) ''.'')"
proof -
  let ?r = "loadTsConfig host workspaceRoot emptyResolver"
  have np: "paths ?r = None"
    by (rule loadTsConfig_paths_None[OF assms])
  have t: "tryMatchPathAlias wd ?r p = Inr None" for p
    by (rule tryMatchPathAlias_no_paths[OF np])
  have "resolveImportPath wd ?r f t = Inr (relativeSpecifier wd f t)" for f t
    by (simp add: resolveImportPath_def t truthy_def)
  with t show ?thesis
    by (simp add: newPathResolver_def relativeSpecifier_starts_with_dot)
qed

section \<open>Alias matching\<close>

text \<open>
  C6. Alias matching walks the configured patterns in order (the order of \<open>Object.entries\<close>,
  each pattern with at least one target), and the first pattern whose resolved target
  directory is a prefix of the file path decides the result: its prefix followed by the
  path relative to that directory, without a final \<open>.ts\<close>, \<open>.tsx\<close> or \<open>.vue\<close>. With
  \<open>baseUrl: "./src"\<close> and \<open>paths: { "@/*": ["*"] }\<close> in \<open>/root/tsconfig.json\<close>, resolving
  \<open>/root/src/utils/helper.ts\<close> gives \<open>@/utils/helper\<close> from every importing file (and every
  working directory).
\<close>

theorem alias_first_match_wins:
  "(paths r = Some (earlier @ (pat, target # others) # later) \<longrightarrow>
    truthy (baseUrl r) \<longrightarrow> truthy (configDir r) \<longrightarrow>
    (\<forall>(p, ts) \<in> set earlier. ts \<noteq> [] \<and> \<not> startsWith file (aliasDirectory wd r (hd ts))) \<longrightarrow>
    startsWith file (aliasDirectory wd r target) \<longrightarrow>
    tryMatchPathAlias wd r file =
      Inr (Some (stripExtension (stripTrailingStar pat @
        path_relative wd (aliasDirectory wd r target) file)))) \<and>
   newPathResolver rootAlias_host ''/root'' = Inr rootAlias_resolver \<and>
   resolveImportPath wd rootAlias_resolver fromPath ''/root/src/utils/helper.ts'' =
     Inr ''@/utils/helper''"
proof (intro conjI impI)
  assume p: "paths r = Some (earlier @ (pat, target # others) # later)"
    and b: "truthy (baseUrl r)" and c: "truthy (configDir r)"
    and e: "\<forall>(p, ts) \<in> set earlier. ts \<noteq> [] \<and> \<not> startsWith file (aliasDirectory wd r (hd ts))"
    and h: "startsWith file (aliasDirectory wd r target)"
  let ?base = "path_resolve wd [the (configDir r), the (baseUrl r)]"
  have "tryMatchPathAlias wd r file =
          tryMatchPathAlias_loop wd ?base file (earlier @ (pat, target # others) # later)"
    using p b c by (simp add: tryMatchPathAlias_def Let_def)
  also have "\<dots> = tryMatchPathAlias_loop wd ?base file ((pat, target # others) # later)"
    by (rule tryMatchPathAlias_loop_skip) (use e in \<open>simp add: aliasDirectory_def\<close>)
  also have "\<dots> = Inr (Some (stripExtension (stripTrailingStar pat @
        path_relative wd (path_resolve wd [?base, stripTrailingStar target]) file)))"
    by (rule tryMatchPathAlias_loop_hit) (use h in \<open>simp add: aliasDirectory_def\<close>)
  finally show "tryMatchPathAlias wd r file =
      Inr (Some (stripExtension (stripTrailingStar pat @
        path_relative wd (aliasDirectory wd r target) file)))"
    by (simp add: aliasDirectory_def)
next
  show "newPathResolver rootAlias_host ''/root'' = Inr rootAlias_resolver"
    by (simp add: newPathResolver_def loadTsConfig_def loadTsConfig_try_def locateConfig_def
        emptyResolver_def rootAlias_host_def rootAlias_resolver_def path_defs Let_def)
next
  show "resolveImportPath wd rootAlias_resolver fromPath ''/root/src/utils/helper.ts'' =
     Inr ''@/utils/helper''"
    by (simp add: resolveImportPath_def rootAlias_match truthy_def)
qed

text \<open>
  C6 on the repository's test configuration: \<open>@/*\<close> comes first and wins over \<open>@utils/*\<close>;
  with the two entries swapped, \<open>@utils/*\<close> wins.
\<close>

theorem alias_first_match_wins_witness:
  "tryMatchPathAlias ''/'' mock_resolver ''/mock/workspace/src/utils/helper.ts'' =
     Inr (Some ''@/utils/helper'') \<and>
   tryMatchPathAlias ''/'' (mock_resolver\<lparr>paths := Some [(''@utils/*'', [''utils/*'']), (''@/*'', [''*''])]\<rparr>)
     ''/mock/workspace/src/utils/helper.ts'' = Inr (Some ''@utils/helper'')"
proof -
  have 1: "tryMatchPathAlias ''/'' mock_resolver ''/mock/workspace/src/utils/helper.ts'' =
     Inr (Some ''@/utils/helper'')"
    using alias_first_match_wins[of mock_resolver "[]" "''@/*''" "''*''" "[]"
        "[(''@utils/*'', [''utils/*'']), (''@components/*'', [''components/*''])]"
        "''/mock/workspace/src/utils/helper.ts''" "''/''"]
    by (simp add: mock_resolver_def aliasDirectory_def path_defs)
  have 2: "tryMatchPathAlias ''/'' (mock_resolver\<lparr>paths := Some [(''@utils/*'', [''utils/*'']), (''@/*'', [''*''])]\<rparr>)
     ''/mock/workspace/src/utils/helper.ts'' = Inr (Some ''@utils/helper'')"
    using alias_first_match_wins[of "mock_resolver\<lparr>paths := Some [(''@utils/*'', [''utils/*'']), (''@/*'', [''*''])]\<rparr>"
        "[]" "''@utils/*''" "''utils/*''" "[]" "[(''@/*'', [''*''])]"
        "''/mock/workspace/src/utils/helper.ts''" "''/''"]
    by (simp add: mock_resolver_def aliasDirectory_def path_defs)
  from 1 2 show ?thesis by simp
qed

lemma noConfig_host_fails: "loadFails noConfig_host ''/proj''"
  by (simp add: loadFails_def noConfig_host_def locateConfig_def truthy_def)

section \<open>Loading the configuration\<close>

text \<open>
  C9. In a project without any configuration file the resolver is constructed all the
  same and matches no alias. But its fallback is not always a relative specifier: for a
  destination in a directory whose name begins with a dot, \<open>path.relative\<close> gives
  \<open>.hidden/x.ts\<close>, the test \<open>startsWith('.')\<close> takes the dot of the name for the dot of
  \<open>./\<close>, and \<open>resolveImportPath\<close> returns the bare \<open>.hidden/x.ts\<close>, which begins neither with
  \<open>./\<close> nor with \<open>../\<close>.
\<close>

theorem fallback_specifier_bare_for_dot_directory:
  "newPathResolver noConfig_host ''/proj'' = Inr emptyResolver \<and>
   resolveImportPath ''/'' emptyResolver ''/proj/b.ts'' ''/proj/.hidden/x.ts'' =
     Inr ''.hidden/x.ts'' \<and>
   \<not> startsWith ''.hidden/x.ts'' ''./'' \<and> \<not> startsWith ''.hidden/x.ts'' ''../''"
  by (simp add: loadFails_def noConfig_host_def locateConfig_def newPathResolver_def
      loadTsConfig_def emptyResolver_def tryMatchPathAlias_def resolveImportPath_def
      relativeSpecifier_def path_defs Let_def)

section \<open>The move of Foo from a.ts to c.ts\<close>

text \<open>
  C5. With \<open>b.ts\<close> importing \<open>{ Foo }\<close> from \<open>./a\<close> and no alias configured, moving \<open>Foo\<close>
  to a new sibling \<open>c.ts\<close> computes the specifier \<open>./c.ts\<close> for \<open>b.ts\<close>: the relative
  fallback of \<open>resolveImportPath\<close> keeps the extension that the alias branch strips. The
  edits for \<open>b.ts\<close> delete the old import and insert \<open>import { Foo } from "./c.ts";\<close> on
  the line below it, where the claim expects \<open>import { Foo } from "./c";\<close>.
\<close>

theorem relative_specifier_keeps_extension:
  \<open>resolveImportPath ''/proj'' emptyResolver ''/proj/b.ts'' ''/proj/c.ts'' = Inr ''./c.ts'' \<and>
   fst (calculateChanges scenario_editor emptyResolver scenario_typeInfo ''/proj/a.ts''
          ''/proj/c.ts'' scenario_references scenario_workspace) =
     Inr \<lparr>importChanges = [scenario_change, scenario_change],
          typeContent = ''export interface Foo { id: string }''\<rparr> \<and>
   newImportPath scenario_change = ''./c.ts'' \<and>
   calculateEditsForDocument (\<lambda>_ _. scenario_b_tree) (mkDocument ''/proj/b.ts'' scenario_b_text)
       scenario_change =
     [\<lparr>edit_range = \<lparr>range_start = \<lparr>line = 1, character = 0\<rparr>,
                      range_end = \<lparr>line = 1, character = 0\<rparr>\<rparr>,
       newText = ''import { Foo } from "./c.ts";'' @ [CHR 0x0A]\<rparr>,
      \<lparr>edit_range = \<lparr>range_start = \<lparr>line = 0, character = 0\<rparr>,
                      range_end = \<lparr>line = 0, character = 26\<rparr>\<rparr>,
       newText = ''''\<rparr>]\<close>
proof (intro conjI)
  show "resolveImportPath ''/proj'' emptyResolver ''/proj/b.ts'' ''/proj/c.ts'' = Inr ''./c.ts''"
    by (simp add: resolveImportPath_def tryMatchPathAlias_def emptyResolver_def
        relativeSpecifier_def path_defs Let_def)
next
  show "fst (calculateChanges scenario_editor emptyResolver scenario_typeInfo ''/proj/a.ts''
          ''/proj/c.ts'' scenario_references scenario_workspace) =
     Inr \<lparr>importChanges = [scenario_change, scenario_change],
          typeContent = ''export interface Foo { id: string }''\<rparr>"
    by (rule scenario_changes)
next
  show "newImportPath scenario_change = ''./c.ts''"
    by (simp add: scenario_change_def)
next
  show \<open>calculateEditsForDocument (\<lambda>_ _. scenario_b_tree) (mkDocument ''/proj/b.ts'' scenario_b_text)
       scenario_change =
     [\<lparr>edit_range = \<lparr>range_start = \<lparr>line = 1, character = 0\<rparr>,
                      range_end = \<lparr>line = 1, character = 0\<rparr>\<rparr>,
       newText = ''import { Foo } from "./c.ts";'' @ [CHR 0x0A]\<rparr>,
      \<lparr>edit_range = \<lparr>range_start = \<lparr>line = 0, character = 0\<rparr>,
                      range_end = \<lparr>line = 0, character = 26\<rparr>\<rparr>,
       newText = ''''\<rparr>]\<close>
    by (simp add: rewriter_defs scenario_defs)
qed

lemma calculateChanges_loop_returns:
  assumes "\<forall>ref \<in> set refs. ws (loc_uri ref) \<noteq> None"
    and "tryMatchPathAlias (editor_cwd editor) resolver destPath = Inr aliasPath"
  shows "calculateChanges_loop editor resolver typeInfo destPath refs pushed ws =
     (Inr (pushed @ concat (map (changeFor editor typeInfo destPath aliasPath ws) refs)), ws)"
  using assms(1)
proof (induction refs arbitrary: pushed)
  case Nil
  show ?case by simp
next
  case (Cons ref rest)
  from Cons.prems obtain contents where c: "ws (loc_uri ref) = Some contents"
    by auto
  have rest: "\<forall>ref \<in> set rest. ws (loc_uri ref) \<noteq> None"
    using Cons.prems by simp
  show ?case
    using c assms(2) Cons.IH[OF rest]
    by (simp add: openTextDocument_def changeFor_def resolveImportPath_def Let_def)
qed

lemma calculateChanges_loop_fails:
  assumes "\<exists>ref \<in> set refs. ws (loc_uri ref) = None"
  shows "\<exists>e. fst (calculateChanges_loop editor resolver typeInfo destPath refs pushed ws) = Inl e"
  using assms
proof (induction refs arbitrary: pushed)
  case Nil
  then show ?case by simp
next
  case (Cons ref rest)
  show ?case
  proof (cases "ws (loc_uri ref)")
    case None
    then show ?thesis by (simp add: openTextDocument_def)
  next
    case (Some contents)
    with Cons.prems have "\<exists>ref \<in> set rest. ws (loc_uri ref) = None"
      by auto
    then have ih: "\<exists>e. fst (calculateChanges_loop editor resolver typeInfo destPath rest p ws) = Inl e"
      for p by (rule Cons.IH)
    show ?thesis
      using Some ih
      by (auto simp: openTextDocument_def Let_def split: sum.splits)
  qed
qed

lemmas applier_defs = spliceEdits_def offsetAt_def

lemmas move_defs =
  moveType_def removeDeclaration_def createDestinationFile_def applyEdits_def
  openTextDocument_def updateImports_def calculateChanges_def
  scenario_initial_def scenario_final_def missing_reference_def

lemma scenario_removeDeclaration:
  "removeDeclaration scenario_editor scenario_typeInfo ''/proj/a.ts'' scenario_initial =
     scenario_workspace"
  by (rule ext)
    (simp add: removeDeclaration_def applyEdits_def scenario_initial_def scenario_defs applier_defs)

section \<open>calculateChanges only reads\<close>

text \<open>
  C10 fails as stated. \<open>calculateChanges\<close> does not return a Changes value for every input:
  with a reference into a file that cannot be opened it fails. And the mutation is not all
  later: \<open>moveType\<close> deletes the declaration from \<open>a.ts\<close> before it calls
  \<open>calculateChanges\<close>, so when that call fails nothing after it has run and \<open>a.ts\<close> has
  lost the declaration all the same.
\<close>

theorem calculateChanges_can_fail_after_deletion:
  "fst (calculateChanges scenario_editor emptyResolver scenario_typeInfo ''/proj/a.ts''
          ''/proj/c.ts'' (scenario_references @ [missing_reference]) scenario_workspace) =
     Inl (CannotOpen ''/proj/gone.ts'') \<and>
   scenario_initial ''/proj/a.ts'' = Some (''export interface Foo { id: string }'' @ [CHR 0x0A]) \<and>
   fst (moveType scenario_editor emptyResolver scenario_typeInfo ''/proj/a.ts'' ''/proj/c.ts''
          (Some (scenario_references @ [missing_reference])) scenario_initial) =
     Inl (CannotOpen ''/proj/gone.ts'') \<and>
   snd (moveType scenario_editor emptyResolver scenario_typeInfo ''/proj/a.ts'' ''/proj/c.ts''
          (Some (scenario_references @ [missing_reference])) scenario_initial) ''/proj/a.ts'' =
     Some [CHR 0x0A]"
proof -
  have c: "fst (calculateChanges scenario_editor emptyResolver scenario_typeInfo ''/proj/a.ts''
          ''/proj/c.ts'' (scenario_references @ [missing_reference]) scenario_workspace) =
     Inl (CannotOpen ''/proj/gone.ts'')"
    by (simp add: calculateChanges_def openTextDocument_def scenario_defs missing_reference_def
        emptyResolver_def findExistingImportPath_def findExistingImportPath_visit_def
        getNamedImports_def someNamed_def clauseIsTypeOnly_def tryMatchPathAlias_def
        resolveImportPath_def relativeSpecifier_def path_defs Let_def)
  have s: "snd (calculateChanges scenario_editor emptyResolver scenario_typeInfo ''/proj/a.ts''
          ''/proj/c.ts'' (scenario_references @ [missing_reference]) scenario_workspace) =
     scenario_workspace"
    by (simp add: calculateChanges_def calculateChanges_loop_frame split: prod.splits sum.splits)
      (metis calculateChanges_loop_frame snd_conv)
  have i: "scenario_initial ''/proj/a.ts'' = Some (''export interface Foo { id: string }'' @ [CHR 0x0A])"
    by (simp add: scenario_initial_def)
  have m: "moveType scenario_editor emptyResolver scenario_typeInfo ''/proj/a.ts'' ''/proj/c.ts''
          (Some (scenario_references @ [missing_reference])) scenario_initial =
        (Inl (CannotOpen ''/proj/gone.ts''), scenario_workspace)"
    using c s
    by (cases "calculateChanges scenario_editor emptyResolver scenario_typeInfo ''/proj/a.ts''
          ''/proj/c.ts'' (scenario_references @ [missing_reference]) scenario_workspace")
      (simp add: moveType_def scenario_removeDeclaration)
  have a: "scenario_workspace ''/proj/a.ts'' = Some [CHR 0x0A]"
    by (simp add: scenario_defs)
  from c i m a show ?thesis by simp
qed

text \<open>
  C10, amended. \<open>calculateChanges\<close> constructs and applies no edit: for every input it only
  opens and parses the referencing files, and the workspace it leaves is the workspace it
  was given, whether it returns or fails. It returns a Changes value (the moved text, and
  one change for each reference whose file imports the type, in the order of the
  references) when every referenced file can be opened and alias matching does not throw,
  and it fails when a referenced file cannot be opened. The mutation is done by the other
  steps of \<open>moveType\<close>: the deletion of the declaration from the source file before
  \<open>calculateChanges\<close> is called, \<open>createDestinationFile\<close> and \<open>updateImports\<close> after it has
  returned.
\<close>

theorem calculateChanges_leaves_workspace:
  "snd (calculateChanges editor resolver typeInfo sourcePath destPath refs ws) = ws \<and>
   ((\<forall>ref \<in> set refs. ws (loc_uri ref) \<noteq> None) \<longrightarrow>
    tryMatchPathAlias (editor_cwd editor) resolver destPath = Inr aliasPath \<longrightarrow>
    fst (calculateChanges editor resolver typeInfo sourcePath destPath refs ws) =
      Inr \<lparr>importChanges = concat (map (changeFor editor typeInfo destPath aliasPath ws) refs),
           typeContent = ti_text typeInfo\<rparr>) \<and>
   ((\<exists>ref \<in> set refs. ws (loc_uri ref) = None) \<longrightarrow>
    (\<exists>e. fst (calculateChanges editor resolver typeInfo sourcePath destPath refs ws) = Inl e)) \<and>
   moveType editor resolver typeInfo sourcePath destPath (Some refs) ws =
     (case fst (calculateChanges editor resolver typeInfo sourcePath destPath refs
                  (removeDeclaration editor typeInfo sourcePath ws)) of
        Inl e \<Rightarrow> (Inl e, removeDeclaration editor typeInfo sourcePath ws)
      | Inr changes \<Rightarrow>
          updateImports editor changes
            (createDestinationFile editor destPath (ti_text typeInfo)
               (removeDeclaration editor typeInfo sourcePath ws)))"
proof (intro conjI impI)
  have l: "snd (calculateChanges_loop editor resolver typeInfo destPath refs [] w) = w" for w
    by (rule calculateChanges_loop_frame)
  show frame: "snd (calculateChanges editor resolver typeInfo sourcePath destPath refs w) = w" for w
    using l[of w]
    by (cases "calculateChanges_loop editor resolver typeInfo destPath refs [] w")
      (auto simp: calculateChanges_def split: sum.splits)
  show "moveType editor resolver typeInfo sourcePath destPath (Some refs) ws =
     (case fst (calculateChanges editor resolver typeInfo sourcePath destPath refs
                  (removeDeclaration editor typeInfo sourcePath ws)) of
        Inl e \<Rightarrow> (Inl e, removeDeclaration editor typeInfo sourcePath ws)
      | Inr changes \<Rightarrow>
          updateImports editor changes
            (createDestinationFile editor destPath (ti_text typeInfo)
               (removeDeclaration editor typeInfo sourcePath ws)))"
    using frame[of "removeDeclaration editor typeInfo sourcePath ws"]
    by (cases "calculateChanges editor resolver typeInfo sourcePath destPath refs
                  (removeDeclaration editor typeInfo sourcePath ws)")
      (auto simp: moveType_def Let_def split: sum.splits)
next
  assume "\<forall>ref \<in> set refs. ws (loc_uri ref) \<noteq> None"
    and "tryMatchPathAlias (editor_cwd editor) resolver destPath = Inr aliasPath"
  then show "fst (calculateChanges editor resolver typeInfo sourcePath destPath refs ws) =
      Inr \<lparr>importChanges = concat (map (changeFor editor typeInfo destPath aliasPath ws) refs),
           typeContent = ti_text typeInfo\<rparr>"
    by (simp add: calculateChanges_def calculateChanges_loop_returns)
next
  assume "\<exists>ref \<in> set refs. ws (loc_uri ref) = None"
  then obtain e where
    "fst (calculateChanges_loop editor resolver typeInfo destPath refs [] ws) = Inl e"
    using calculateChanges_loop_fails by blast
  then show "\<exists>e. fst (calculateChanges editor resolver typeInfo sourcePath destPath refs ws) = Inl e"
    by (cases "calculateChanges_loop editor resolver typeInfo destPath refs [] ws")
      (auto simp: calculateChanges_def)
qed

text \<open>
  The amended C10 at the scenario: \<open>calculateChanges\<close> returns the changes for \<open>b.ts\<close> and
  leaves every file as it found it, with the declaration already deleted from \<open>a.ts\<close>; the
  whole move then leaves \<open>a.ts\<close> without the declaration, \<open>c.ts\<close> with it, and \<open>b.ts\<close>
  importing from \<open>./c.ts\<close>.
\<close>

theorem calculateChanges_leaves_workspace_witness:
  "calculateChanges scenario_editor emptyResolver scenario_typeInfo ''/proj/a.ts''
          ''/proj/c.ts'' scenario_references scenario_workspace =
     (Inr \<lparr>importChanges = [scenario_change, scenario_change],
           typeContent = ''export interface Foo { id: string }''\<rparr>, scenario_workspace) \<and>
   removeDeclaration scenario_editor scenario_typeInfo ''/proj/a.ts'' scenario_initial =
     scenario_workspace \<and>
   moveType scenario_editor emptyResolver scenario_typeInfo ''/proj/a.ts'' ''/proj/c.ts''
     (Some scenario_references) scenario_initial = (Inr (), scenario_final)"
proof -
  note t = calculateChanges_leaves_workspace[of scenario_editor emptyResolver scenario_typeInfo
      "''/proj/a.ts''" "''/proj/c.ts''" scenario_references _ None]
  have al: "tryMatchPathAlias (editor_cwd scenario_editor) emptyResolver ''/proj/c.ts'' = Inr None"
    by (simp add: tryMatchPathAlias_def emptyResolver_def)
  have op: "\<forall>ref \<in> set scenario_references. scenario_workspace (loc_uri ref) \<noteq> None"
    by (simp add: scenario_defs)
  have ch: "concat (map (changeFor scenario_editor scenario_typeInfo ''/proj/c.ts'' None
               scenario_workspace) scenario_references) = [scenario_change, scenario_change]"
    by (simp add: changeFor_def scenario_defs findExistingImportPath_def
        findExistingImportPath_visit_def getNamedImports_def someNamed_def clauseIsTypeOnly_def
        relativeSpecifier_def path_defs Let_def)
  have 1: "calculateChanges scenario_editor emptyResolver scenario_typeInfo ''/proj/a.ts''
          ''/proj/c.ts'' scenario_references scenario_workspace =
     (Inr \<lparr>importChanges = [scenario_change, scenario_change],
           typeContent = ''export interface Foo { id: string }''\<rparr>, scenario_workspace)"
    using t[of scenario_workspace] al op ch
    by (simp add: prod_eq_iff scenario_typeInfo_def)
  have 2: "removeDeclaration scenario_editor scenario_typeInfo ''/proj/a.ts'' scenario_initial =
     scenario_workspace"
    by (rule scenario_removeDeclaration)
  have cd: "createDestinationFile scenario_editor ''/proj/c.ts'' (ti_text scenario_typeInfo)
              scenario_workspace =
            scenario_workspace(''/proj/c.ts'' \<mapsto> ''export interface Foo { id: string }'')"
    by (simp add: createDestinationFile_def openTextDocument_def scenario_defs)
  have up: "updateImports scenario_editor
              \<lparr>importChanges = [scenario_change, scenario_change],
               typeContent = ''export interface Foo { id: string }''\<rparr>
              (scenario_workspace(''/proj/c.ts'' \<mapsto> ''export interface Foo { id: string }'')) =
            (Inr (), scenario_final)"
    by (simp add: updateImports_def openTextDocument_def applyEdits_def scenario_defs
        scenario_final_def rewriter_defs applier_defs fun_upd_twist)
  have 3: "moveType scenario_editor emptyResolver scenario_typeInfo ''/proj/a.ts'' ''/proj/c.ts''
     (Some scenario_references) scenario_initial = (Inr (), scenario_final)"
    using t[of scenario_initial] 1 2 cd up by simp
  from 1 2 3 show ?thesis by simp
qed

end
